theory Spec2Isabelle
  imports Complex_Main
begin

section \<open>Numeric data, errors and configuration\<close>

text \<open>
  \<open>Numeric\<close> of the source is a scalar or a one-dimensional array. Python floats are
  read as reals. Every \<open>raise\<close> and every failing \<open>assert\<close> of the source is a value of
  \<open>error\<close>.
\<close>

datatype numeric = Skalar real | Array "real list"

datatype error =
  AssertionError | TypeError | IndexError | AttributeError | ValueError
  | StopIteration | Exception

text \<open>\<open>CONFIG.modeling\<close>: the configured constants, taken as a parameter.\<close>

record config_modeling =
  BIG :: real
  EPSILON :: real
  BIG_BINARY_BOUND :: real

fun is_scalar :: "numeric \<Rightarrow> bool" where
  "is_scalar (Skalar c) = True"
| "is_scalar (Array xs) = False"

fun numeric_length :: "numeric \<Rightarrow> nat" where
  "numeric_length (Skalar c) = 1"
| "numeric_length (Array xs) = length xs"

text \<open>\<open>c * x\<close>, \<open>x + c\<close> and \<open>np.maximum(x, c)\<close> for a scalar \<open>c\<close>: total, elementwise.\<close>

fun scale :: "real \<Rightarrow> numeric \<Rightarrow> numeric" where
  "scale c (Skalar x) = Skalar (c * x)"
| "scale c (Array xs) = Array (map (\<lambda>x. c * x) xs)"

fun add_skalar :: "numeric \<Rightarrow> real \<Rightarrow> numeric" where
  "add_skalar (Skalar x) c = Skalar (x + c)"
| "add_skalar (Array xs) c = Array (map (\<lambda>x. x + c) xs)"

fun maximum_skalar :: "numeric \<Rightarrow> real \<Rightarrow> numeric" where
  "maximum_skalar (Skalar x) c = Skalar (max x c)"
| "maximum_skalar (Array xs) c = Array (map (\<lambda>x. max x c) xs)"

text \<open>
  A binary NumPy operation on two numerics: arrays of length 1 broadcast, two arrays of
  different lengths (neither of length 1) raise \<open>ValueError\<close>.
\<close>

fun np_binop :: "(real \<Rightarrow> real \<Rightarrow> real) \<Rightarrow> numeric \<Rightarrow> numeric \<Rightarrow> error + numeric" where
  "np_binop f (Skalar x) (Skalar y) = Inr (Skalar (f x y))"
| "np_binop f (Skalar x) (Array ys) = Inr (Array (map (\<lambda>y. f x y) ys))"
| "np_binop f (Array xs) (Skalar y) = Inr (Array (map (\<lambda>x. f x y) xs))"
| "np_binop f (Array xs) (Array ys) =
     (if length xs = length ys then Inr (Array (map2 f xs ys))
      else if length xs = 1 then Inr (Array (map (\<lambda>y. f (xs ! 0) y) ys))
      else if length ys = 1 then Inr (Array (map (\<lambda>x. f x (ys ! 0)) xs))
      else Inl ValueError)"

definition np_multiply :: "numeric \<Rightarrow> numeric \<Rightarrow> error + numeric" where
  "np_multiply = np_binop (\<lambda>x y. x * y)"

definition np_add :: "numeric \<Rightarrow> numeric \<Rightarrow> error + numeric" where
  "np_add = np_binop (\<lambda>x y. x + y)"

text \<open>\<open>np.isclose(x, 0, atol=epsilon)\<close>: \<open>|x - 0| \<le> atol + rtol * |0|\<close>.\<close>

definition isclose0 :: "real \<Rightarrow> real \<Rightarrow> bool" where
  "isclose0 epsilon x = (\<bar>x\<bar> \<le> epsilon)"

text \<open>Python's \<open>xs[0]\<close>, \<open>xs[i]\<close>, \<open>xs[-1]\<close> and \<open>xs[-n:]\<close>.\<close>

definition item :: "'a list \<Rightarrow> nat \<Rightarrow> error + 'a" where
  "item xs i = (if i < length xs then Inr (xs ! i) else Inl IndexError)"

definition last_item :: "'a list \<Rightarrow> error + 'a" where
  "last_item xs = (case xs of [] \<Rightarrow> Inl IndexError | _ # _ \<Rightarrow> Inr (last xs))"

definition last_n :: "nat \<Rightarrow> 'a list \<Rightarrow> 'a list" where
  "last_n n xs = (if n = 0 then xs else drop (length xs - n) xs)"

section \<open>Variables and equations\<close>

text \<open>
  \<open>Variable\<close> and \<open>VariableTS\<close>: a labelled decision variable of length 1 or of one entry
  per time step, as the source builds it with \<open>create_variable\<close> and \<open>Variable(...)\<close>.
\<close>

record variable =
  label :: string
  length_v :: nat
  label_short :: string
  is_binary :: bool
  fixed_value :: "numeric option"
  lower_bound :: "numeric option"
  upper_bound :: "numeric option"
  previous_values :: "numeric option"

text \<open>\<open>Variable(label, length, label_short)\<close>.\<close>

definition Variable :: "string \<Rightarrow> nat \<Rightarrow> string \<Rightarrow> variable" where
  "Variable l n s =
     \<lparr>label = l, length_v = n, label_short = s, is_binary = False, fixed_value = None,
      lower_bound = None, upper_bound = None, previous_values = None\<rparr>"

text \<open>
  Modelled from the spec: \<open>create_variable(label, owner, length, lower_bound, upper_bound,
  is_binary, fixed_value, previous_values)\<close> of the symbolic primitive layer, which is not
  among the source files. The variable is identified by its label, qualified by the full
  label of the owning model; \<open>previous_values\<close> is stored as given.
\<close>

definition create_variable ::
  "string \<Rightarrow> string \<Rightarrow> nat \<Rightarrow> numeric option \<Rightarrow> numeric option \<Rightarrow> bool \<Rightarrow> numeric option
    \<Rightarrow> numeric option \<Rightarrow> variable" where
  "create_variable l owner n lb ub bin fixed prev =
     \<lparr>label = owner @ ''__'' @ l, length_v = n, label_short = l, is_binary = bin,
      fixed_value = fixed, lower_bound = lb, upper_bound = ub, previous_values = prev\<rparr>"

datatype eq_type = Eq | Ineq

record summand =
  variable :: variable
  factor :: numeric
  indices_of_variable :: "nat list option"
  as_sum :: bool

record equation =
  eq_label :: string
  eq_kind :: eq_type
  summands :: "summand list"
  constant_e :: numeric

text \<open>
  Modelled from the spec: \<open>create_equation(label, owner, kind)\<close>, \<open>add_summand(variable,
  coefficient, index_subset, as_sum)\<close> and \<open>add_constant(value)\<close> of the symbolic primitive
  layer, which is not among the source files. An equation is the sum of its terms
  (variable times coefficient, optionally restricted to an index subset or summed over
  it), equal to or at most its constant, which starts as 0.
\<close>

definition create_equation :: "string \<Rightarrow> string \<Rightarrow> eq_type \<Rightarrow> equation" where
  "create_equation l owner k =
     \<lparr>eq_label = owner @ ''_'' @ l, eq_kind = k, summands = [], constant_e = Skalar 0\<rparr>"

definition add_summand ::
  "equation \<Rightarrow> variable \<Rightarrow> numeric \<Rightarrow> nat list option \<Rightarrow> bool \<Rightarrow> equation" where
  "add_summand e v f idx s =
     e\<lparr>summands := summands e @
        [\<lparr>variable = v, factor = f, indices_of_variable = idx, as_sum = s\<rparr>]\<rparr>"

definition add_constant :: "equation \<Rightarrow> numeric \<Rightarrow> equation" where
  "add_constant e c = e\<lparr>constant_e := c\<rparr>"

subsection \<open>Assignments and what it means to satisfy an equation\<close>

text \<open>
  Modelled from the spec: the meaning of an equation under an assignment of values to the
  variables (the solver side is not among the source files). An assignment gives every
  variable label a list of values. A term over an index subset has one row per index;
  lengths combine as in NumPy (length 1 broadcasts; two different lengths other than 1
  do not combine). Row \<open>i\<close> of the equation compares the sum of the terms' rows \<open>i\<close> with
  row \<open>i\<close> of the constant.
\<close>

type_synonym assignment = "string \<Rightarrow> real list"

definition broadcast_length :: "nat list \<Rightarrow> nat option" where
  "broadcast_length ls =
     (case filter (\<lambda>l. l \<noteq> 1) ls of
        [] \<Rightarrow> Some 1
      | l # r \<Rightarrow> if list_all (\<lambda>k. k = l) r then Some l else None)"

fun numeric_at :: "numeric \<Rightarrow> nat \<Rightarrow> real" where
  "numeric_at (Skalar c) i = c"
| "numeric_at (Array xs) i = (if length xs = 1 then xs ! 0 else xs ! i)"

definition summand_indices :: "summand \<Rightarrow> nat list" where
  "summand_indices s =
     (case indices_of_variable s of
        None \<Rightarrow> [0..<length_v (variable s)]
      | Some idx \<Rightarrow> idx)"

definition index_at :: "nat list \<Rightarrow> nat \<Rightarrow> nat" where
  "index_at idx k = (if length idx = 1 then idx ! 0 else idx ! k)"

definition summand_term :: "assignment \<Rightarrow> summand \<Rightarrow> nat \<Rightarrow> real" where
  "summand_term a s k =
     numeric_at (factor s) k * (a (label (variable s)) ! index_at (summand_indices s) k)"

definition summand_rows :: "summand \<Rightarrow> nat option" where
  "summand_rows s =
     (if list_all (\<lambda>j. j < length_v (variable s)) (summand_indices s)
      then broadcast_length [length (summand_indices s), numeric_length (factor s)]
      else None)"

definition summand_length :: "summand \<Rightarrow> nat option" where
  "summand_length s =
     (case summand_rows s of None \<Rightarrow> None | Some n \<Rightarrow> Some (if as_sum s then 1 else n))"

definition summand_row :: "assignment \<Rightarrow> summand \<Rightarrow> nat \<Rightarrow> real" where
  "summand_row a s i =
     (if as_sum s
      then (case summand_rows s of
              None \<Rightarrow> 0
            | Some n \<Rightarrow> sum_list (map (summand_term a s) [0..<n]))
      else summand_term a s i)"

definition nr_of_single_equations :: "equation \<Rightarrow> nat option" where
  "nr_of_single_equations e =
     (if list_all (\<lambda>s. summand_length s \<noteq> None) (summands e)
      then broadcast_length
             (numeric_length (constant_e e) # map (\<lambda>s. the (summand_length s)) (summands e))
      else None)"

definition equation_row_holds :: "assignment \<Rightarrow> equation \<Rightarrow> nat \<Rightarrow> bool" where
  "equation_row_holds a e i =
     (let lhs = sum_list (map (\<lambda>s. summand_row a s i) (summands e));
          rhs = numeric_at (constant_e e) i
      in case eq_kind e of Eq \<Rightarrow> lhs = rhs | Ineq \<Rightarrow> lhs \<le> rhs)"

definition equation_holds :: "assignment \<Rightarrow> equation \<Rightarrow> bool" where
  "equation_holds a e =
     (case nr_of_single_equations e of
        None \<Rightarrow> False
      | Some n \<Rightarrow> list_all (equation_row_holds a e) [0..<n])"

text \<open>
  Modelled from the spec: a variable's own domain. The assignment has one value per entry
  of the variable; a binary variable takes 0 or 1; a fixed value collapses the bounds to
  a point; otherwise the lower and upper bound (scalar or per entry) apply where given.
\<close>

definition value_in_domain :: "variable \<Rightarrow> nat \<Rightarrow> real \<Rightarrow> bool" where
  "value_in_domain v i x =
     ((if is_binary v then x = 0 \<or> x = 1 else True) \<and>
      (case fixed_value v of
         Some c \<Rightarrow> x = numeric_at c i
       | None \<Rightarrow>
           (case lower_bound v of None \<Rightarrow> True | Some lb \<Rightarrow> numeric_at lb i \<le> x) \<and>
           (case upper_bound v of None \<Rightarrow> True | Some ub \<Rightarrow> x \<le> numeric_at ub i)))"

definition variable_ok :: "assignment \<Rightarrow> variable \<Rightarrow> bool" where
  "variable_ok a v =
     (length (a (label v)) = length_v v \<and>
      list_all (\<lambda>i. value_in_domain v i (a (label v) ! i)) [0..<length_v v])"

definition feasible :: "assignment \<Rightarrow> variable list \<Rightarrow> equation list \<Rightarrow> bool" where
  "feasible a vs es = (list_all (variable_ok a) vs \<and> list_all (equation_holds a) es)"

subsection \<open>Terms over all rows\<close>

text \<open>
  A term that is not summed, over a variable of \<open>T\<close> entries taken at all of its
  indices, with a factor of length 1 or \<open>T\<close>; and the two shapes of term that
  \<open>add_summand\<close> appends, without and with an index list.
\<close>

definition full_rows :: "nat \<Rightarrow> summand \<Rightarrow> bool" where
  "full_rows T s =
     (\<not> as_sum s \<and> length_v (variable s) = T \<and>
      (indices_of_variable s = None \<or> indices_of_variable s = Some [0..<T]) \<and>
      (numeric_length (factor s) = 1 \<or> numeric_length (factor s) = T))"

definition term_of :: "numeric \<Rightarrow> variable \<Rightarrow> summand" where
  "term_of f v = \<lparr>variable = v, factor = f, indices_of_variable = None, as_sum = False\<rparr>"

definition term_at :: "nat list \<Rightarrow> numeric \<Rightarrow> variable \<Rightarrow> summand" where
  "term_at idx f v = \<lparr>variable = v, factor = f, indices_of_variable = Some idx, as_sum = False\<rparr>"

section \<open>The horizon context\<close>

text \<open>
  \<open>SystemModel\<close>, as far as the modelled code reads it: the number of time steps, the
  step durations and their total, and the previous horizon's step duration(s).
  \<open>system_model.indices\<close> is \<open>range(nr_of_time_steps)\<close>.
\<close>

record system_model =
  nr_of_time_steps :: nat
  dt_in_hours :: "real list"
  dt_in_hours_total :: real
  previous_dt_in_hours :: numeric

definition indices :: "system_model \<Rightarrow> nat list" where
  "indices sm = [0..<nr_of_time_steps sm]"

definition and_then :: "error + 'a \<Rightarrow> ('a \<Rightarrow> error + 'b) \<Rightarrow> error + 'b" where
  "and_then m f = (case m of Inl e \<Rightarrow> Inl e | Inr x \<Rightarrow> f x)"

datatype warning = MaximumDurationWarning | BigBinaryBoundWarning | DefaultSizeWarning

section \<open>OnOffModel\<close>

text \<open>
  The state of an \<open>OnOffModel\<close> object: its full label (the owner of what it creates),
  the variables \<open>do_modeling\<close> has set so far, and the defining variables with their
  bounds.
\<close>

record on_off_model =
  oo_label_full :: string
  on :: "variable option"
  off :: "variable option"
  switch_on :: "variable option"
  switch_off :: "variable option"
  nr_switch_on :: "variable option"
  defining_variables :: "variable list"
  defining_bounds :: "(numeric \<times> numeric) list"

text \<open>
  \<open>OnOffModel.__init__\<close>: no lower bound stays below \<open>EPSILON\<close>; one pair of bounds per
  defining variable. The full label joins the element's full label and the model's label.
\<close>

definition OnOffModel_init ::
  "config_modeling \<Rightarrow> string \<Rightarrow> variable list \<Rightarrow> (numeric \<times> numeric) list \<Rightarrow> string
    \<Rightarrow> error + on_off_model" where
  "OnOffModel_init cfg element vars bounds lbl =
     (let self = \<lparr>oo_label_full = element @ ''__'' @ lbl, on = None, off = None,
                   switch_on = None, switch_off = None, nr_switch_on = None,
                   defining_variables = vars,
                   defining_bounds =
                     map (\<lambda>(lb, ub). (maximum_skalar lb (EPSILON cfg), ub)) bounds\<rparr>
      in if length vars = length bounds then Inr self else Inl AssertionError)"

subsection \<open>Consecutive duration\<close>

text \<open>
  \<open>get_consecutive_duration\<close>. The indices of the entries close to 0, the length taken
  from the last of them, and the sum over the last entries.
\<close>

definition zero_indices :: "real \<Rightarrow> real list \<Rightarrow> nat list" where
  "zero_indices epsilon bs = filter (\<lambda>i. isclose0 epsilon (bs ! i)) [0..<length bs]"

definition length_of_last_duration :: "real \<Rightarrow> real list \<Rightarrow> nat" where
  "length_of_last_duration epsilon bs =
     (let zs = zero_indices epsilon bs
      in if zs \<noteq> [] then last zs + 1 else length bs)"

fun get_consecutive_duration ::
  "config_modeling \<Rightarrow> numeric option \<Rightarrow> numeric \<Rightarrow> error + real" where
  "get_consecutive_duration cfg None dt = Inl TypeError"
| "get_consecutive_duration cfg (Some (Skalar b)) (Skalar dt) = Inr (b * dt)"
| "get_consecutive_duration cfg (Some (Skalar b)) (Array dts) =
     and_then (last_item dts) (\<lambda>d. Inr (b * d))"
| "get_consecutive_duration cfg (Some (Array bs)) (Skalar dt) =
     (let n = length_of_last_duration (EPSILON cfg) bs
      in Inr (sum_list (map (\<lambda>b. b * dt) (last_n n bs))))"
| "get_consecutive_duration cfg (Some (Array bs)) (Array dts) =
     (let n = length_of_last_duration (EPSILON cfg) bs
      in if n > length dts then Inl TypeError
         else Inr (sum_list (map2 (\<lambda>b d. b * d) (last_n n bs) (last_n n dts))))"

text \<open>
  \<open>x.active_data[0] if x.is_array else x.active_data\<close> for a time series \<open>x\<close>, read
  as its active data.
\<close>

fun first_step :: "numeric \<Rightarrow> error + real" where
  "first_step (Skalar c) = Inr c"
| "first_step (Array xs) = item xs 0"

text \<open>
  \<open>_get_duration_in_hours\<close>: the duration variable, its constraints 1, 2a, 2b, the
  minimum-duration constraints when a minimum is given, and the first-step equation.
\<close>

definition get_duration_in_hours ::
  "config_modeling \<Rightarrow> on_off_model \<Rightarrow> string \<Rightarrow> variable option \<Rightarrow> numeric option
    \<Rightarrow> numeric option \<Rightarrow> system_model \<Rightarrow> nat list
    \<Rightarrow> error + (variable \<times> equation list \<times> warning list)" where
  "get_duration_in_hours cfg self variable_label binary_variable minimum_duration
      maximum_duration sm time_indices =
   (case binary_variable of
      None \<Rightarrow> Inl AttributeError
    | Some bv \<Rightarrow>
   and_then (get_consecutive_duration cfg (previous_values bv) (previous_dt_in_hours sm))
     (\<lambda>previous_duration.
   let mega = dt_in_hours_total sm + previous_duration in
   and_then
     (case maximum_duration of
        None \<Rightarrow> Inr []
      | Some md \<Rightarrow>
          and_then (first_step md) (\<lambda>first_step_max.
          and_then (item (dt_in_hours sm) 0) (\<lambda>dt0.
            Inr (if previous_duration + dt0 > first_step_max
                 then [MaximumDurationWarning] else []))))
     (\<lambda>warnings.
   let duration_in_hours =
         create_variable variable_label (oo_label_full self) (nr_of_time_steps sm)
           (Some (Skalar 0))
           (Some (case maximum_duration of Some md \<Rightarrow> md | None \<Rightarrow> Skalar mega))
           False None (Some (Skalar previous_duration));
       label_prefix = label duration_in_hours;
       owner = oo_label_full self;

       constraint_1 = create_equation (label_prefix @ ''_constraint_1'') owner Ineq;
       constraint_1 = add_summand constraint_1 duration_in_hours (Skalar 1) None False;
       constraint_1 = add_summand constraint_1 bv (Skalar (- 1 * mega)) None False;

       constraint_2a = create_equation (label_prefix @ ''_constraint_2a'') owner Ineq;
       constraint_2a = add_summand constraint_2a duration_in_hours (Skalar 1)
                         (Some (drop 1 time_indices)) False;
       constraint_2a = add_summand constraint_2a duration_in_hours (Skalar (- 1))
                         (Some (butlast time_indices)) False;
       constraint_2a = add_constant constraint_2a (Array (drop 1 (dt_in_hours sm)));

       constraint_2b = create_equation (label_prefix @ ''_constraint_2b'') owner Ineq;
       constraint_2b = add_summand constraint_2b duration_in_hours (Skalar (- 1))
                         (Some (drop 1 time_indices)) False;
       constraint_2b = add_summand constraint_2b duration_in_hours (Skalar 1)
                         (Some (butlast time_indices)) False;
       constraint_2b = add_summand constraint_2b bv (Skalar mega)
                         (Some (drop 1 time_indices)) False;
       constraint_2b = add_constant constraint_2b
                         (Array (map (\<lambda>d. - 1 * d + mega) (drop 1 (dt_in_hours sm))))
   in
   and_then
     (case minimum_duration of
        None \<Rightarrow> Inr []
      | Some mind \<Rightarrow>
          (let minimum_duration_used =
                 (case mind of Skalar c \<Rightarrow> Skalar c | Array xs \<Rightarrow> Array (butlast xs));
               eq_min_duration =
                 create_equation (label_prefix @ ''_minimum_duration'') owner Ineq;
               eq_min_duration = add_summand eq_min_duration duration_in_hours (Skalar (- 1))
                                   (Some (butlast time_indices)) False;
               eq_min_duration = add_summand eq_min_duration bv
                                   (scale (- 1) minimum_duration_used)
                                   (Some (drop 1 time_indices)) False;
               eq_min_duration = add_summand eq_min_duration bv minimum_duration_used
                                   (Some (butlast time_indices)) False
           in and_then (first_step mind) (\<lambda>first_step_min.
              if 0 < previous_duration \<and> previous_duration < first_step_min
              then and_then (item time_indices 0) (\<lambda>t0.
                     let eq_min_duration_inital =
                           create_equation (label_prefix @ ''_minimum_duration_inital'')
                             owner Eq;
                         eq_min_duration_inital =
                           add_summand eq_min_duration_inital bv (Skalar 1) (Some [t0]) False;
                         eq_min_duration_inital =
                           add_constant eq_min_duration_inital (Skalar 1)
                     in Inr [eq_min_duration, eq_min_duration_inital])
              else Inr [eq_min_duration])))
     (\<lambda>minimum_equations.
   and_then (item time_indices 0) (\<lambda>first_index.
   and_then (item (dt_in_hours sm) first_index) (\<lambda>dt_first.
   let eq_first = create_equation (label_prefix @ ''_initial'') owner Eq;
       eq_first = add_summand eq_first duration_in_hours (Skalar 1) (Some [first_index]) False;
       eq_first = add_summand eq_first bv (Skalar (- 1 * (dt_first + previous_duration)))
                    (Some [first_index]) False
   in Inr (duration_in_hours,
           [constraint_1, constraint_2a, constraint_2b] @ minimum_equations @ [eq_first],
           warnings)))))))"

subsection \<open>Activation constraints\<close>

text \<open>\<open>np.max(x)\<close>: the largest entry; of an empty array it raises.\<close>

fun np_max :: "numeric \<Rightarrow> error + real" where
  "np_max (Skalar c) = Inr c"
| "np_max (Array []) = Inl ValueError"
| "np_max (Array (x # xs)) = Inr (fold max xs x)"

text \<open>The loop \<open>absolute_maximum += bounds[1]\<close> over the zipped variables and bounds.\<close>

fun sum_upper_bounds :: "numeric \<Rightarrow> ('a \<times> numeric \<times> numeric) list \<Rightarrow> error + numeric" where
  "sum_upper_bounds acc [] = Inr acc"
| "sum_upper_bounds acc ((v, bounds) # rest) =
     and_then (np_add acc (snd bounds)) (\<lambda>acc'. sum_upper_bounds acc' rest)"

text \<open>
  \<open>_add_on_constraints\<close>: with one defining variable, \<open>on * max(epsilon, lower) \<le> var\<close>
  and \<open>var \<le> on * upper\<close>; with several, the summed and averaged form.
\<close>

definition add_on_constraints ::
  "config_modeling \<Rightarrow> on_off_model \<Rightarrow> system_model \<Rightarrow> nat list
    \<Rightarrow> error + (equation list \<times> warning list)" where
  "add_on_constraints cfg self sm time_indices =
   (case on self of
      None \<Rightarrow> Inl AssertionError
    | Some on_v \<Rightarrow>
   let nr_of_defining_variables = length (defining_variables self);
       owner = oo_label_full self in
   if \<not> nr_of_defining_variables > 0 then Inl AssertionError
   else
   let eq_on_1 = create_equation ''On_Constraint_1'' owner Ineq;
       eq_on_2 = create_equation ''On_Constraint_2'' owner Ineq
   in
   and_then
     (if nr_of_defining_variables = 1
      then
        and_then (item (defining_variables self) 0) (\<lambda>var.
        and_then (item (defining_bounds self) 0) (\<lambda>(lower_bound, upper_bound).
        let eq_on_1 = add_summand eq_on_1 var (Skalar (- 1)) (Some time_indices) False;
            eq_on_1 = add_summand eq_on_1 on_v (maximum_skalar lower_bound (EPSILON cfg))
                        (Some time_indices) False;
            eq_on_2 = add_summand eq_on_2 var (Skalar 1) (Some time_indices) False;
            eq_on_2 = add_summand eq_on_2 on_v (scale (- 1) upper_bound)
                        (Some time_indices) False
        in Inr (eq_on_1, eq_on_2, upper_bound)))
      else
        (let eq_on_1 =
               fold (\<lambda>var e. add_summand e var (Skalar (- 1)) (Some time_indices) False)
                 (defining_variables self) eq_on_1;
             eq_on_1 = add_summand eq_on_1 on_v (Skalar (EPSILON cfg))
                         (Some time_indices) False;
             pairs = zip (defining_variables self) (defining_bounds self);
             eq_on_2 =
               fold (\<lambda>(var, bounds) e.
                       add_summand e var (Skalar (1 / real nr_of_defining_variables))
                         (Some time_indices) False)
                 pairs eq_on_2
         in and_then (sum_upper_bounds (Skalar 0) pairs) (\<lambda>absolute_maximum.
            let upper_bound = scale (1 / real nr_of_defining_variables) absolute_maximum;
                eq_on_2 = add_summand eq_on_2 on_v (scale (- 1) upper_bound)
                            (Some time_indices) False
            in Inr (eq_on_1, eq_on_2, upper_bound))))
     (\<lambda>(eq_on_1, eq_on_2, upper_bound).
        and_then (np_max upper_bound) (\<lambda>m.
          Inr ([eq_on_1, eq_on_2],
               if m > BIG_BINARY_BOUND cfg then [BigBinaryBoundWarning] else []))))"

text \<open>
  Row \<open>t\<close> of the two activation constraints that \<open>_add_on_constraints\<close> emits, under
  an assignment.
\<close>

definition on_constraints_hold_at ::
  "config_modeling \<Rightarrow> on_off_model \<Rightarrow> system_model \<Rightarrow> assignment \<Rightarrow> nat \<Rightarrow> bool" where
  "on_constraints_hold_at cfg self sm a t =
     (case add_on_constraints cfg self sm (indices sm) of
        Inl e \<Rightarrow> False
      | Inr (eqs, ws) \<Rightarrow> list_all (\<lambda>e. equation_row_holds a e t) eqs)"

subsection \<open>Switch events\<close>

text \<open>\<open>x[-1]\<close> for the previous values of a variable.\<close>

fun last_previous_value :: "numeric option \<Rightarrow> error + real" where
  "last_previous_value None = Inl TypeError"
| "last_previous_value (Some (Skalar c)) = Inl TypeError"
| "last_previous_value (Some (Array xs)) = last_item xs"

text \<open>
  \<open>_add_switch_constraints\<close>: the switch balance from the second step on, the initial
  switch against the previous on-value, at most one of the two switches per step (with
  the slack of 0.1), and the number of switch-ons.
\<close>

definition add_switch_constraints ::
  "on_off_model \<Rightarrow> system_model \<Rightarrow> error + equation list" where
  "add_switch_constraints self sm =
   (case switch_on self of None \<Rightarrow> Inl AssertionError | Some switch_on_v \<Rightarrow>
    case switch_off self of None \<Rightarrow> Inl AssertionError | Some switch_off_v \<Rightarrow>
    case nr_switch_on self of None \<Rightarrow> Inl AssertionError | Some nr_switch_on_v \<Rightarrow>
    case on self of None \<Rightarrow> Inl AssertionError | Some on_v \<Rightarrow>
    let owner = oo_label_full self;
        eq_switch = create_equation ''Switch'' owner Eq;
        eq_switch = add_summand eq_switch switch_on_v (Skalar 1)
                      (Some (drop 1 (indices sm))) False;
        eq_switch = add_summand eq_switch switch_off_v (Skalar (- 1))
                      (Some (drop 1 (indices sm))) False;
        eq_switch = add_summand eq_switch on_v (Skalar (- 1))
                      (Some (drop 1 (indices sm))) False;
        eq_switch = add_summand eq_switch on_v (Skalar 1)
                      (Some (butlast (indices sm))) False;

        eq_initial_switch = create_equation ''Initial_Switch'' owner Eq;
        eq_initial_switch = add_summand eq_initial_switch switch_on_v (Skalar 1)
                              (Some [0]) False;
        eq_initial_switch = add_summand eq_initial_switch switch_off_v (Skalar (- 1))
                              (Some [0]) False;
        eq_initial_switch = add_summand eq_initial_switch on_v (Skalar (- 1))
                              (Some [0]) False
    in
    and_then (last_previous_value (previous_values on_v)) (\<lambda>previous_on.
    let eq_initial_switch = add_constant eq_initial_switch (Skalar (- 1 * previous_on));

        eq_switch_on_or_off = create_equation ''Switch_On_or_Off'' owner Ineq;
        eq_switch_on_or_off = add_summand eq_switch_on_or_off switch_on_v (Skalar 1)
                                None False;
        eq_switch_on_or_off = add_summand eq_switch_on_or_off switch_off_v (Skalar 1)
                                None False;
        eq_switch_on_or_off = add_constant eq_switch_on_or_off (Skalar (11 / 10));

        eq_nr_switch_on = create_equation ''NrSwitchOn'' owner Eq;
        eq_nr_switch_on = add_summand eq_nr_switch_on nr_switch_on_v (Skalar 1) None False;
        eq_nr_switch_on = add_summand eq_nr_switch_on switch_on_v (Skalar (- 1)) None True
    in Inr [eq_switch, eq_initial_switch, eq_switch_on_or_off, eq_nr_switch_on]))"

subsection \<open>Previous on-values\<close>

text \<open>
  \<open>np.array(values)\<close> of a list of scalars and arrays: scalars alone give a
  one-dimensional array with one entry per list element, arrays of one common length give
  a two-dimensional array with one row per list element, anything else does not
  convert.
\<close>

datatype ndarray = Array1 "real list" | Array2 "real list list"

fun entries :: "numeric \<Rightarrow> real list" where
  "entries (Skalar c) = [c]"
| "entries (Array xs) = xs"

definition np_array :: "numeric list \<Rightarrow> error + ndarray" where
  "np_array vs =
     (if list_all is_scalar vs then Inr (Array1 (concat (map entries vs)))
      else if list_all (\<lambda>v. \<not> is_scalar v \<and> numeric_length v = numeric_length (hd vs)) vs
      then Inr (Array2 (map entries vs))
      else Inl ValueError)"

text \<open>
  \<open>_previous_on_values\<close>: \<open>[0]\<close> without previous values; otherwise the entries of the
  converted array that are not close to 0, combined over the first axis when the array
  has two dimensions.
\<close>

definition previous_on_values :: "on_off_model \<Rightarrow> real \<Rightarrow> error + real list" where
  "previous_on_values self epsilon =
     (let pvs = List.map_filter previous_values (defining_variables self)
      in if pvs = [] then Inr [0]
         else and_then (np_array pvs) (\<lambda>arr.
                case arr of
                  Array2 rows \<Rightarrow>
                    Inr (map (\<lambda>j. if list_ex (\<lambda>row. \<not> isclose0 epsilon (row ! j)) rows
                                   then 1 else 0)
                           [0..<length (hd rows)])
                | Array1 xs \<Rightarrow>
                    Inr (map (\<lambda>x. if \<not> isclose0 epsilon x then 1 else 0) xs)))"

section \<open>Piecewise segments\<close>

text \<open>\<open>str(i)\<close> for a segment index: its decimal digits.\<close>

definition digit :: "nat \<Rightarrow> char" where
  "digit d = ''0123456789'' ! (d mod 10)"

fun digits :: "nat \<Rightarrow> nat \<Rightarrow> string" where
  "digits 0 n = [digit n]"
| "digits (Suc fuel) n = (if n < 10 then [digit n] else digits fuel (n div 10) @ [digit n])"

definition str :: "nat \<Rightarrow> string" where
  "str n = digits n n"

text \<open>
  \<open>SegmentModel\<close>: the sample points of one segment (for every variable the values at
  the two ends), and the variables \<open>do_modeling\<close> creates.
\<close>

record segment_model =
  seg_label_full :: string
  in_segment :: "variable option"
  lambda0 :: "variable option"
  lambda1 :: "variable option"
  seg_as_time_series :: bool
  seg_sample_points :: "(variable \<times> (numeric \<times> numeric)) list"

definition SegmentModel_init ::
  "string \<Rightarrow> nat \<Rightarrow> (variable \<times> (numeric \<times> numeric)) list \<Rightarrow> bool \<Rightarrow> segment_model" where
  "SegmentModel_init element segment_index sample_points as_time_series =
     \<lparr>seg_label_full = element @ ''__'' @ ''Segment_'' @ str segment_index,
      in_segment = None, lambda0 = None, lambda1 = None,
      seg_as_time_series = as_time_series, seg_sample_points = sample_points\<rparr>"

text \<open>\<open>SegmentModel.do_modeling\<close>: the flag, the two weights and \<open>in_segment = lambda0 + lambda1\<close>.\<close>

definition SegmentModel_do_modeling ::
  "segment_model \<Rightarrow> system_model \<Rightarrow> segment_model \<times> equation" where
  "SegmentModel_do_modeling self sm =
     (let n = (if seg_as_time_series self then nr_of_time_steps sm else 1);
          owner = seg_label_full self;
          in_segment_v = create_variable ''inSegment'' owner n None None True None None;
          lambda0_v = create_variable ''lambda0'' owner n (Some (Skalar 0)) (Some (Skalar 1))
                        False None None;
          lambda1_v = create_variable ''lambda1'' owner n (Some (Skalar 0)) (Some (Skalar 1))
                        False None None;
          equation = create_equation ''inSegment'' owner Eq;
          equation = add_summand equation in_segment_v (Skalar (- 1)) None False;
          equation = add_summand equation lambda0_v (Skalar 1) None False;
          equation = add_summand equation lambda1_v (Skalar 1) None False
      in (self\<lparr>in_segment := Some in_segment_v, lambda0 := Some lambda0_v,
               lambda1 := Some lambda1_v\<rparr>, equation))"

text \<open>
  \<open>can_be_outside_segments\<close>: \<open>False\<close> or \<open>None\<close>, \<open>True\<close> (a variable gets
  created), or a variable to use.
\<close>

datatype outside = Not_Outside | Create_Outside | Use_Outside variable

record multiple_segments_model =
  msm_label_full :: string
  msm_element :: string
  outside_segments :: "variable option"
  msm_as_time_series :: bool
  can_be_outside_segments :: outside
  msm_sample_points :: "(variable \<times> (numeric \<times> numeric) list) list"
  segment_models :: "segment_model list"

definition MultipleSegmentsModel_init ::
  "string \<Rightarrow> (variable \<times> (numeric \<times> numeric) list) list \<Rightarrow> outside \<Rightarrow> bool \<Rightarrow> string
    \<Rightarrow> multiple_segments_model" where
  "MultipleSegmentsModel_init element sample_points can_be_outside as_time_series lbl =
     \<lparr>msm_label_full = element @ ''__'' @ lbl, msm_element = element,
      outside_segments = None, msm_as_time_series = as_time_series,
      can_be_outside_segments = can_be_outside, msm_sample_points = sample_points,
      segment_models = []\<rparr>"

text \<open>\<open>len(next(iter(sample_points.values())))\<close>.\<close>

definition nr_of_segments :: "multiple_segments_model \<Rightarrow> error + nat" where
  "nr_of_segments self =
     (case msm_sample_points self of
        [] \<Rightarrow> Inl StopIteration
      | (key, vals) # rest \<Rightarrow> Inr (length vals))"

text \<open>A sequence of results, stopped at the first error.\<close>

fun all_or_error :: "(error + 'a) list \<Rightarrow> error + 'a list" where
  "all_or_error [] = Inr []"
| "all_or_error (x # xs) =
     and_then x (\<lambda>y. and_then (all_or_error xs) (\<lambda>ys. Inr (y # ys)))"

text \<open>\<open>{key: values[i] for key, values in sample_points.items()}\<close>.\<close>

definition restructure ::
  "(variable \<times> (numeric \<times> numeric) list) list \<Rightarrow> nat
    \<Rightarrow> error + (variable \<times> (numeric \<times> numeric)) list" where
  "restructure sample_points i =
     all_or_error
       (map (\<lambda>(key, vals). and_then (item vals i) (\<lambda>v. Inr (key, v))) sample_points)"

text \<open>The terms of one segment in the equation of a variable.\<close>

definition add_segment_terms :: "variable \<Rightarrow> segment_model \<Rightarrow> equation \<Rightarrow> error + equation" where
  "add_segment_terms var segment_model lambda_eq =
     (case (lambda0 segment_model, lambda1 segment_model,
            map_of (seg_sample_points segment_model) var) of
        (Some l0, Some l1, Some (v0, v1)) \<Rightarrow>
          Inr (add_summand (add_summand lambda_eq l0 v0 None False) l1 v1 None False)
      | (_, _, None) \<Rightarrow> Inl Exception
      | _ \<Rightarrow> Inl AttributeError)"

fun add_all_segment_terms ::
  "variable \<Rightarrow> segment_model list \<Rightarrow> equation \<Rightarrow> error + equation" where
  "add_all_segment_terms var [] lambda_eq = Inr lambda_eq"
| "add_all_segment_terms var (m # ms) lambda_eq =
     and_then (add_segment_terms var m lambda_eq) (add_all_segment_terms var ms)"

text \<open>
  \<open>MultipleSegmentsModel.do_modeling\<close>: one segment model per segment, one equation per
  variable (the variable is the weighted sum of the segments' end values), and the
  equation that places the variables in one segment (or outside, where that is allowed).
\<close>

definition MultipleSegmentsModel_do_modeling ::
  "multiple_segments_model \<Rightarrow> system_model
    \<Rightarrow> error + (multiple_segments_model \<times> equation list)" where
  "MultipleSegmentsModel_do_modeling self sm =
   and_then (nr_of_segments self) (\<lambda>n.
   and_then (all_or_error (map (restructure (msm_sample_points self)) [0..<n]))
     (\<lambda>restructured_variables_with_segments.
   let modelled =
         map (\<lambda>(i, sample_points).
                SegmentModel_do_modeling
                  (SegmentModel_init (msm_element self) i sample_points
                     (msm_as_time_series self)) sm)
           (enumerate 0 restructured_variables_with_segments);
       segment_models' = map fst modelled;
       owner = msm_label_full self
   in
   and_then
     (all_or_error
        (map (\<lambda>var.
                add_all_segment_terms var segment_models'
                  (add_summand (create_equation (''lambda_'' @ label var) owner Eq)
                     var (Skalar (- 1)) None False))
           (map fst (msm_sample_points self))))
     (\<lambda>lambda_eqs.
   let in_single_segment = create_equation ''in_single_Segment'' owner Eq in
   and_then
     (all_or_error
        (map (\<lambda>m. case in_segment m of None \<Rightarrow> Inl AttributeError | Some v \<Rightarrow> Inr v)
           segment_models'))
     (\<lambda>in_segments.
   let in_single_segment =
         fold (\<lambda>v e. add_summand e v (Skalar 1) None False) in_segments in_single_segment;
       (outside', in_single_segment) =
         (case can_be_outside_segments self of
            Use_Outside v \<Rightarrow>
              (Some v, add_summand in_single_segment v (Skalar (- 1)) None False)
          | Create_Outside \<Rightarrow>
              (let n = (if msm_as_time_series self then nr_of_time_steps sm else 1);
                   v = create_variable ''outside_segments'' owner n None None True None None
               in (Some v, add_summand in_single_segment v (Skalar (- 1)) None False))
          | Not_Outside \<Rightarrow> (None, add_constant in_single_segment (Skalar 1)))
   in Inr (self\<lparr>segment_models := segment_models', outside_segments := outside'\<rparr>,
           map snd modelled @ lambda_eqs @ [in_single_segment])))))"

section \<open>The share ledger\<close>

text \<open>
  \<open>SingleShareModel\<close>: a fresh variable (of length 1 when the share is summed, when the
  variable has length 1, or when a scalar factor stands alone) and the equation that
  ties it to \<open>variable * factor\<close>, or to the factor alone.
\<close>

record single_share_model =
  ssm_label :: string
  ssm_label_full :: string
  single_share :: variable
  single_equation :: equation

fun np_sum :: "numeric \<Rightarrow> real" where
  "np_sum (Skalar c) = c"
| "np_sum (Array xs) = sum_list xs"

definition SingleShareModel_init ::
  "string \<Rightarrow> string \<Rightarrow> variable option \<Rightarrow> numeric \<Rightarrow> bool \<Rightarrow> error + single_share_model" where
  "SingleShareModel_init element name var fac share_as_sum =
   (let lbl = name; lbl_full = element @ ''__'' @ name in
    if (case var of None \<Rightarrow> False | Some v \<Rightarrow> length_v v = 1 \<and> share_as_sum)
    then Inl AssertionError
    else
    and_then
      (if share_as_sum \<or> (case var of None \<Rightarrow> False | Some v \<Rightarrow> length_v v = 1)
          \<or> (var = None \<and> is_scalar fac)
       then Inr (Variable lbl_full 1 lbl)
       else (case var of
               Some v \<Rightarrow> Inr (Variable lbl_full (length_v v) lbl)
             | None \<Rightarrow> Inl Exception))
      (\<lambda>single_share_v.
    let single_equation_e = create_equation lbl_full lbl_full Eq;
        single_equation_e = add_summand single_equation_e single_share_v (Skalar (- 1))
                              None False;
        single_equation_e =
          (case var of
             None \<Rightarrow>
               add_constant single_equation_e
                 (if share_as_sum then Skalar (- 1 * np_sum fac) else scale (- 1) fac)
           | Some v \<Rightarrow> add_summand single_equation_e v fac None share_as_sum)
    in Inr \<lparr>ssm_label = lbl, ssm_label_full = lbl_full, single_share = single_share_v,
            single_equation = single_equation_e\<rparr>))"

text \<open>\<open>ShareAllocationModel\<close>: the ledger. \<open>shares\<close> is the dictionary from share names
  to share variables; the two equations exist once \<open>do_modeling\<close> has run.\<close>

record share_allocation_model =
  sam_element :: string
  sam_label :: string
  sum_TS :: "variable option"
  sum_total :: "variable option"
  shares :: "string \<rightharpoonup> variable"
  eq_time_series :: "equation option"
  eq_sum :: "equation option"
  shares_are_time_series :: bool
  total_max :: "real option"
  total_min :: "real option"
  max_per_hour :: "numeric option"
  min_per_hour :: "numeric option"
  sub_models :: "single_share_model list"

definition ShareAllocationModel_init ::
  "string \<Rightarrow> string \<Rightarrow> bool \<Rightarrow> real option \<Rightarrow> real option \<Rightarrow> numeric option
    \<Rightarrow> numeric option \<Rightarrow> error + share_allocation_model" where
  "ShareAllocationModel_init element lbl are_time_series tmax tmin max_ph min_ph =
     (if \<not> are_time_series \<and> \<not> (max_ph = None \<and> min_ph = None) then Inl AssertionError
      else Inr \<lparr>sam_element = element, sam_label = lbl, sum_TS = None, sum_total = None,
                shares = Map.empty, eq_time_series = None, eq_sum = None,
                shares_are_time_series = are_time_series, total_max = tmax,
                total_min = tmin, max_per_hour = max_ph, min_per_hour = min_ph,
                sub_models = []\<rparr>)"

text \<open>\<open>None if x is None else np.multiply(x, dt_in_hours)\<close>.\<close>

definition multiply_optional :: "numeric option \<Rightarrow> real list \<Rightarrow> error + numeric option" where
  "multiply_optional x dt =
     (case x of
        None \<Rightarrow> Inr None
      | Some v \<Rightarrow> and_then (np_multiply v (Array dt)) (\<lambda>r. Inr (Some r)))"

definition ShareAllocationModel_do_modeling ::
  "share_allocation_model \<Rightarrow> system_model \<Rightarrow> error + share_allocation_model" where
  "ShareAllocationModel_do_modeling self sm =
   (let owner = sam_element self @ ''__'' @ sam_label self;
        sum_v = create_variable (sam_label self @ ''_sum'') owner 1
                  (map_option Skalar (total_min self)) (map_option Skalar (total_max self))
                  False None None;
        eq_sum_e = create_equation (sam_label self @ ''_sum'') owner Eq;
        eq_sum_e = add_summand eq_sum_e sum_v (Skalar (- 1)) None False;
        self = self\<lparr>sum_total := Some sum_v, eq_sum := Some eq_sum_e\<rparr>
    in
    if shares_are_time_series self
    then
      and_then (multiply_optional (min_per_hour self) (dt_in_hours sm)) (\<lambda>lb_ts.
      and_then (multiply_optional (max_per_hour self) (dt_in_hours sm)) (\<lambda>ub_ts.
      let sum_TS_v = create_variable (sam_label self @ ''_sum_TS'') owner
                       (nr_of_time_steps sm) lb_ts ub_ts False None None;
          eq_time_series_e = create_equation (sam_label self @ ''_time_series'') owner Eq;
          eq_time_series_e = add_summand eq_time_series_e sum_TS_v (Skalar (- 1)) None False;
          eq_sum_e = add_summand eq_sum_e sum_TS_v (Skalar 1) None True
      in Inr (self\<lparr>sum_TS := Some sum_TS_v, eq_time_series := Some eq_time_series_e,
                    eq_sum := Some eq_sum_e\<rparr>)))
    else Inr self)"

text \<open>
  What a call that may raise leaves behind: the object as it is when the call returns, or
  the error together with the object as it is when the error is raised.
\<close>

datatype 'a outcome = Returned 'a | Raised error 'a

text \<open>
  \<open>add_share\<close>. The target equation is an object shared with the ledger, so the new term
  is in the ledger's equation as soon as it is added, and the new share model is in
  \<open>sub_models\<close> as soon as it is appended; the check of the name comes after both.
\<close>

definition add_share ::
  "share_allocation_model \<Rightarrow> system_model \<Rightarrow> string \<Rightarrow> variable option \<Rightarrow> numeric \<Rightarrow> bool
    \<Rightarrow> share_allocation_model outcome" where
  "add_share self sm name_of_share var fac share_as_sum =
   (let to_sum = (share_as_sum \<or> \<not> shares_are_time_series self);
        target_eq = (if to_sum then eq_sum self else eq_time_series self)
    in
    case SingleShareModel_init (sam_element self) name_of_share var fac share_as_sum of
      Inl e \<Rightarrow> Raised e self
    | Inr new_share \<Rightarrow>
        (case target_eq of
           None \<Rightarrow> Raised AttributeError self
         | Some target \<Rightarrow>
             (let target = add_summand target (single_share new_share) (Skalar 1) None False;
                  self = (if to_sum then self\<lparr>eq_sum := Some target\<rparr>
                          else self\<lparr>eq_time_series := Some target\<rparr>);
                  self = self\<lparr>sub_models := sub_models self @ [new_share]\<rparr>
              in if shares self (ssm_label new_share) \<noteq> None
                 then Raised AssertionError self
                 else Returned
                        (self\<lparr>shares := (shares self)
                                  (ssm_label new_share \<mapsto> single_share new_share)\<rparr>))))"

section \<open>Shares registered with the effect collection\<close>

text \<open>
  Modelled from the spec: \<open>add_share_to_operation\<close>, \<open>add_share_to_invest\<close> and
  \<open>add_share_to_penalty\<close> of the effects subsystem, which is not among the source files.
  A call registers, for every effect of \<open>effect_values\<close>, the term
  \<open>variable * factor * value\<close> (the factor and the value alone where there is no
  variable) in the named ledger. The calls are recorded in the order they are made.
\<close>

datatype ledger = Operation | Invest | Penalty

record share_call =
  sc_ledger :: ledger
  sc_name :: string
  sc_element :: string
  sc_effect_values :: "(string \<times> numeric) list"
  sc_factor :: numeric
  sc_variable :: "variable option"

definition add_share_to_invest ::
  "string \<Rightarrow> string \<Rightarrow> (string \<times> numeric) list \<Rightarrow> numeric \<Rightarrow> variable option \<Rightarrow> share_call" where
  "add_share_to_invest name element effect_values fac var =
     \<lparr>sc_ledger = Invest, sc_name = name, sc_element = element,
      sc_effect_values = effect_values, sc_factor = fac, sc_variable = var\<rparr>"

definition add_share_to_operation ::
  "string \<Rightarrow> string \<Rightarrow> (string \<times> numeric) list \<Rightarrow> numeric \<Rightarrow> variable option \<Rightarrow> share_call" where
  "add_share_to_operation name element effect_values fac var =
     \<lparr>sc_ledger = Operation, sc_name = name, sc_element = element,
      sc_effect_values = effect_values, sc_factor = fac, sc_variable = var\<rparr>"

definition add_share_to_penalty :: "string \<Rightarrow> variable \<Rightarrow> numeric \<Rightarrow> share_call" where
  "add_share_to_penalty name var fac =
     \<lparr>sc_ledger = Penalty, sc_name = name, sc_element = [],
      sc_effect_values = [], sc_factor = fac, sc_variable = Some var\<rparr>"

text \<open>
  Modelled from the spec: the value a registered scalar share contributes to an effect
  under an assignment.
\<close>

definition share_value :: "assignment \<Rightarrow> string \<Rightarrow> share_call \<Rightarrow> real" where
  "share_value a effect c =
     (case map_of (sc_effect_values c) effect of
        None \<Rightarrow> 0
      | Some v \<Rightarrow>
          numeric_at v 0 * numeric_at (sc_factor c) 0 *
          (case sc_variable c of None \<Rightarrow> 1 | Some x \<Rightarrow> a (label x) ! 0))"

section \<open>InvestmentModel\<close>

text \<open>
  \<open>InvestParameters\<close>, as far as the modelled code reads it. An effect is named by its
  label; a dictionary of effect values is a list of pairs in insertion order.
\<close>

record invest_parameters =
  fixed_size :: "real option"
  optional :: bool
  minimum_size :: real
  maximum_size :: real
  fix_effects :: "(string \<times> numeric) list"
  divest_effects :: "(string \<times> numeric) list"
  specific_effects :: "(string \<times> numeric) list"
  effects_in_segments ::
    "((numeric \<times> numeric) list \<times> (string \<times> (numeric \<times> numeric) list) list) option"

record investment_model =
  im_label_full :: string
  im_element :: string
  size_v :: "variable option"
  is_invested :: "variable option"
  im_invest_parameters :: invest_parameters

text \<open>
  \<open>SegmentedSharesModel\<close>: its constructor's check of the segment counts, and
  \<open>do_modeling\<close>: one helper variable per effect, the segment encoding over the helper
  variables and the sized variable, and one share per effect. A variable is a time
  series when it has more than one entry.
\<close>

definition SegmentedSharesModel_do_modeling ::
  "string \<Rightarrow> variable \<times> (numeric \<times> numeric) list
    \<Rightarrow> (string \<times> (numeric \<times> numeric) list) list \<Rightarrow> variable option \<Rightarrow> string
    \<Rightarrow> system_model \<Rightarrow> error + (share_call list \<times> equation list)" where
  "SegmentedSharesModel_do_modeling element variable_segments share_segments
      can_be_outside lbl sm =
   and_then (item (map snd share_segments) 0) (\<lambda>first_share_segments.
   if length (snd variable_segments) \<noteq> length first_share_segments then Inl AssertionError
   else
   let owner = element @ ''__'' @ lbl;
       as_time_series = (length_v (fst variable_segments) > 1);
       n = (if as_time_series then nr_of_time_steps sm else 1);
       shares_vs =
         map (\<lambda>(effect, segment).
                (effect, create_variable (effect @ ''_segmented'') owner n None None
                           False None None))
           share_segments;
       segments =
         map (\<lambda>((effect, segment), (effect', v)). (v, segment)) (zip share_segments shares_vs)
         @ [variable_segments];
       segments_model =
         MultipleSegmentsModel_init element segments
           (case can_be_outside of None \<Rightarrow> Not_Outside | Some v \<Rightarrow> Use_Outside v)
           as_time_series ''MultipleSegments''
   in
   and_then (MultipleSegmentsModel_do_modeling segments_model sm) (\<lambda>(segments_model, eqs).
     Inr (map (\<lambda>(effect, v).
                 (if as_time_series then add_share_to_operation else add_share_to_invest)
                   ''segmented_effects'' element [(effect, Skalar 1)] (Skalar 1) (Some v))
            shares_vs,
          eqs)))"

text \<open>
  \<open>InvestmentModel._create_shares\<close>: the fixed, divestment and specific shares and the
  segmented shares, in the order of the calls.
\<close>

definition InvestmentModel_create_shares ::
  "investment_model \<Rightarrow> system_model \<Rightarrow> error + (share_call list \<times> equation list)" where
  "InvestmentModel_create_shares self sm =
   (let invest_parameters = im_invest_parameters self;

        fix_effects_v = fix_effects invest_parameters;
        fix_calls =
          (if fix_effects_v \<noteq> []
           then (let variable_is_invested =
                       (if optional invest_parameters then is_invested self else None)
                 in [add_share_to_invest ''fix_effects'' (im_element self) fix_effects_v
                       (Skalar 1) variable_is_invested])
           else []);

        divest_effects_v = divest_effects invest_parameters;
        divest_calls =
          (if divest_effects_v \<noteq> []
           then (if optional invest_parameters
                 then [add_share_to_invest ''divest_effects'' (im_element self)
                         divest_effects_v (Skalar 1) None,
                       add_share_to_invest ''divest_cancellation_effects'' (im_element self)
                         divest_effects_v (Skalar (- 1)) (is_invested self)]
                 else [])
           else []);

        specific_effects_v = specific_effects invest_parameters;
        specific_calls =
          (if specific_effects_v \<noteq> []
           then [add_share_to_invest ''specific_effects'' (im_element self)
                   specific_effects_v (Skalar 1) (size_v self)]
           else [])
    in
    case effects_in_segments invest_parameters of
      None \<Rightarrow> Inr (fix_calls @ divest_calls @ specific_calls, [])
    | Some invest_segments \<Rightarrow>
        (case size_v self of
           None \<Rightarrow> Inl AttributeError
         | Some size_var \<Rightarrow>
             and_then
               (SegmentedSharesModel_do_modeling (im_element self)
                  (size_var, fst invest_segments) (snd invest_segments) (is_invested self)
                  ''SegmentedShares'' sm)
               (\<lambda>(segment_calls, eqs).
                  Inr (fix_calls @ divest_calls @ specific_calls @ segment_calls, eqs))))"

text \<open>
  The two divestment shares among the registered calls, what they contribute to an
  effect under an assignment, and the divestment value that the parameters give an
  effect.
\<close>

definition divestment_calls :: "share_call list \<Rightarrow> share_call list" where
  "divestment_calls calls =
     filter (\<lambda>c. sc_name c = ''divest_effects'' \<or> sc_name c = ''divest_cancellation_effects'')
       calls"

definition net_divestment :: "assignment \<Rightarrow> string \<Rightarrow> share_call list \<Rightarrow> real" where
  "net_divestment a effect calls =
     sum_list (map (share_value a effect) (divestment_calls calls))"

definition divestment_value :: "invest_parameters \<Rightarrow> string \<Rightarrow> real" where
  "divestment_value p effect =
     (case map_of (divest_effects p) effect of None \<Rightarrow> 0 | Some v \<Rightarrow> numeric_at v 0)"

section \<open>Flow and Bus\<close>

record on_off_parameters =
  on_hours_total_min :: "real option"
  on_hours_total_max :: "real option"
  consecutive_on_hours_min :: "numeric option"
  consecutive_on_hours_max :: "numeric option"
  consecutive_off_hours_min :: "numeric option"
  consecutive_off_hours_max :: "numeric option"
  switch_on_total_max :: "real option"
  effects_per_switch_on :: "(string \<times> numeric) list"
  effects_per_running_hour :: "(string \<times> numeric) list"

text \<open>The \<open>size\<close> of a flow: a scalar or investment parameters.\<close>

datatype size_arg = Size_Skalar real | Size_Invest invest_parameters

record flow_model =
  flow_rate :: "variable option"
  sum_flow_hours :: "variable option"

record flow =
  flow_label :: string
  size_f :: size_arg
  relative_minimum :: numeric
  relative_maximum :: numeric
  fixed_relative_profile :: "numeric option"
  load_factor_min :: "real option"
  load_factor_max :: "real option"
  effects_per_flow_hour :: "(string \<times> numeric) list"
  flow_hours_total_max :: "real option"
  flow_hours_total_min :: "real option"
  flow_on_off_parameters :: "on_off_parameters option"
  previous_flow_rate :: "numeric option"
  bus :: string
  comp :: "string option"
  model :: "flow_model option"

text \<open>
  \<open>size or CONFIG.modeling.BIG\<close>: Python's \<open>or\<close> takes the right operand when the left
  one is falsy, which \<open>None\<close> and the number 0 are and an object is not.
\<close>

definition size_or_default :: "config_modeling \<Rightarrow> size_arg option \<Rightarrow> size_arg" where
  "size_or_default cfg size_a =
     (case size_a of
        None \<Rightarrow> Size_Skalar (BIG cfg)
      | Some (Size_Skalar x) \<Rightarrow> if x = 0 then Size_Skalar (BIG cfg) else Size_Skalar x
      | Some (Size_Invest p) \<Rightarrow> Size_Invest p)"

text \<open>\<open>np.any(x > y)\<close>.\<close>

definition np_any_greater :: "numeric \<Rightarrow> numeric \<Rightarrow> error + bool" where
  "np_any_greater x y =
     and_then (np_binop (\<lambda>u v. if u > v then 1 else 0) x y)
       (\<lambda>r. Inr (list_ex (\<lambda>b. b \<noteq> 0) (entries r)))"

text \<open>
  \<open>Flow._plausibility_checks\<close>: the relative minimum above the relative maximum is an
  error; the default size together with a fixed relative profile is a warning.
\<close>

definition Flow_plausibility_checks :: "config_modeling \<Rightarrow> flow \<Rightarrow> error + warning list" where
  "Flow_plausibility_checks cfg self =
     and_then (np_any_greater (relative_minimum self) (relative_maximum self)) (\<lambda>bad.
       if bad then Inl Exception
       else Inr (if size_f self = Size_Skalar (BIG cfg) \<and> fixed_relative_profile self \<noteq> None
                 then [DefaultSizeWarning] else []))"

text \<open>\<open>Flow.__init__\<close> (the meta data, which nothing here reads, is left out).\<close>

definition Flow_init ::
  "config_modeling \<Rightarrow> string \<Rightarrow> string \<Rightarrow> size_arg option \<Rightarrow> numeric option \<Rightarrow> numeric
    \<Rightarrow> numeric \<Rightarrow> (string \<times> numeric) list option \<Rightarrow> on_off_parameters option
    \<Rightarrow> real option \<Rightarrow> real option \<Rightarrow> real option \<Rightarrow> real option \<Rightarrow> numeric option
    \<Rightarrow> error + (flow \<times> warning list)" where
  "Flow_init cfg lbl bus_a size_a fixed_relative_profile_a relative_minimum_a
      relative_maximum_a effects_per_flow_hour_a on_off_parameters_a
      flow_hours_total_max_a flow_hours_total_min_a load_factor_min_a load_factor_max_a
      previous_flow_rate_a =
   (let self =
          \<lparr>flow_label = lbl,
           size_f = size_or_default cfg size_a,
           relative_minimum = relative_minimum_a,
           relative_maximum = relative_maximum_a,
           fixed_relative_profile = fixed_relative_profile_a,
           load_factor_min = load_factor_min_a,
           load_factor_max = load_factor_max_a,
           effects_per_flow_hour =
             (case effects_per_flow_hour_a of None \<Rightarrow> [] | Some ev \<Rightarrow> ev),
           flow_hours_total_max = flow_hours_total_max_a,
           flow_hours_total_min = flow_hours_total_min_a,
           flow_on_off_parameters = on_off_parameters_a,
           previous_flow_rate = previous_flow_rate_a,
           bus = bus_a,
           comp = None,
           model = None\<rparr>
    in and_then (Flow_plausibility_checks cfg self) (\<lambda>warnings. Inr (self, warnings)))"

text \<open>\<open>Bus\<close>: its full label, the excess penalty (the active data of the time series, or
  \<open>None\<close>) and the flows attached to it.\<close>

record bus_element =
  bus_label_full :: string
  excess_penalty_per_flow_hour :: "numeric option"
  inputs :: "flow list"
  outputs :: "flow list"

definition with_excess :: "bus_element \<Rightarrow> bool" where
  "with_excess b = (if excess_penalty_per_flow_hour b = None then False else True)"

record bus_model =
  bm_label_full :: string
  excess_input :: "variable option"
  excess_output :: "variable option"

definition BusModel_init :: "bus_element \<Rightarrow> bus_model" where
  "BusModel_init element =
     \<lparr>bm_label_full = bus_label_full element, excess_input = None, excess_output = None\<rparr>"

text \<open>\<open>flow.model.flow_rate\<close>, which needs the flow's model and its rate variable.\<close>

definition model_flow_rate :: "flow \<Rightarrow> error + variable" where
  "model_flow_rate f =
     (case model f of
        None \<Rightarrow> Inl AttributeError
      | Some m \<Rightarrow> (case flow_rate m of None \<Rightarrow> Inl Exception | Some v \<Rightarrow> Inr v))"

text \<open>
  \<open>BusModel.do_modeling\<close>: the balance of the input and output flow rates and, with
  excess, the two excess variables, their terms in the balance and their penalty shares.
\<close>

definition BusModel_do_modeling ::
  "bus_model \<Rightarrow> bus_element \<Rightarrow> system_model
    \<Rightarrow> error + (bus_model \<times> equation \<times> share_call list)" where
  "BusModel_do_modeling self element sm =
   (let owner = bm_label_full self;
        eq_bus_balance = create_equation ''busBalance'' owner Eq
    in
    and_then (all_or_error (map model_flow_rate (inputs element))) (\<lambda>input_rates.
    let eq_bus_balance =
          fold (\<lambda>v e. add_summand e v (Skalar 1) None False) input_rates eq_bus_balance
    in
    and_then (all_or_error (map model_flow_rate (outputs element))) (\<lambda>output_rates.
    let eq_bus_balance =
          fold (\<lambda>v e. add_summand e v (Skalar (- 1)) None False) output_rates eq_bus_balance
    in
    if \<not> with_excess element then Inr (self, eq_bus_balance, [])
    else
    case excess_penalty_per_flow_hour element of
      None \<Rightarrow> Inl AttributeError
    | Some penalty \<Rightarrow>
        and_then (np_multiply (Array (dt_in_hours sm)) penalty) (\<lambda>excess_penalty.
        let excess_input_v = create_variable ''excess_input'' owner (nr_of_time_steps sm)
                               (Some (Skalar 0)) None False None None;
            excess_output_v = create_variable ''excess_output'' owner (nr_of_time_steps sm)
                                (Some (Skalar 0)) None False None None;
            eq_bus_balance = add_summand eq_bus_balance excess_output_v (Skalar (- 1))
                               None False;
            eq_bus_balance = add_summand eq_bus_balance excess_input_v (Skalar 1) None False
        in Inr (self\<lparr>excess_input := Some excess_input_v,
                     excess_output := Some excess_output_v\<rparr>,
                eq_bus_balance,
                [add_share_to_penalty (bus_label_full element @ ''__excess_input'')
                   excess_input_v excess_penalty,
                 add_share_to_penalty (bus_label_full element @ ''__excess_output'')
                   excess_output_v excess_penalty])))))"

section \<open>Example inputs\<close>

definition example_config :: config_modeling where
  "example_config = \<lparr>BIG = 10000000, EPSILON = 1 / 100000, BIG_BINARY_BOUND = 100000\<rparr>"

text \<open>Eleven steps of one hour, and an on-variable whose model was off before.\<close>

definition round_trip_system :: system_model where
  "round_trip_system =
     \<lparr>nr_of_time_steps = 11, dt_in_hours = [1, 1, 1, 1, 1, 1, 1, 1, 1, 1, 1],
      dt_in_hours_total = 11, previous_dt_in_hours = Skalar 1\<rparr>"

definition round_trip_on :: variable where
  "round_trip_on =
     create_variable ''on'' ''Boiler__OnOff'' 11 None None True None (Some (Array [0]))"

definition round_trip_model :: on_off_model where
  "round_trip_model =
     \<lparr>oo_label_full = ''Boiler__OnOff'', on = Some round_trip_on, off = None,
      switch_on = None, switch_off = None, nr_switch_on = None,
      defining_variables = [], defining_bounds = []\<rparr>"

definition round_trip_assignment :: assignment where
  "round_trip_assignment l =
     (if l = ''Boiler__OnOff__on'' then [0, 0, 1, 1, 1, 1, 0, 1, 1, 1, 0]
      else if l = ''Boiler__OnOff__consecutiveOnHours''
      then [0, 0, 1, 2, 3, 4, 0, 1, 2, 3, 0]
      else [])"

text \<open>Five steps, with the switch variables as \<open>OnOffModel.do_modeling\<close> creates them.\<close>

definition switch_system :: system_model where
  "switch_system =
     \<lparr>nr_of_time_steps = 5, dt_in_hours = [1, 1, 1, 1, 1],
      dt_in_hours_total = 5, previous_dt_in_hours = Skalar 1\<rparr>"

definition switch_on_variable :: variable where
  "switch_on_variable =
     create_variable ''on'' ''Boiler__OnOff'' 5 None None True None (Some (Array [0]))"

definition switch_model :: on_off_model where
  "switch_model =
     \<lparr>oo_label_full = ''Boiler__OnOff'', on = Some switch_on_variable, off = None,
      switch_on = Some (create_variable ''switchOn'' ''Boiler__OnOff'' 5 None None True
                          None None),
      switch_off = Some (create_variable ''switchOff'' ''Boiler__OnOff'' 5 None None True
                           None None),
      nr_switch_on = Some (create_variable ''nrSwitchOn'' ''Boiler__OnOff'' 1 None None
                             False None None),
      defining_variables = [], defining_bounds = []\<rparr>"

definition switch_assignment :: assignment where
  "switch_assignment l =
     (if l = ''Boiler__OnOff__on'' then [0, 1, 1, 0, 1]
      else if l = ''Boiler__OnOff__switchOn'' then [0, 1, 0, 0, 1]
      else if l = ''Boiler__OnOff__switchOff'' then [0, 0, 0, 1, 0]
      else if l = ''Boiler__OnOff__nrSwitchOn'' then [2]
      else [])"

text \<open>
  Two steps, one flow rate with the bounds \<open>[0, 10]\<close> under an on-variable, and
  assignments that switch it on in the first step only.
\<close>

definition activation_system :: system_model where
  "activation_system =
     \<lparr>nr_of_time_steps = 2, dt_in_hours = [1, 1], dt_in_hours_total = 2,
      previous_dt_in_hours = Skalar 1\<rparr>"

definition activation_variable :: variable where
  "activation_variable =
     create_variable ''flow_rate'' ''Boiler__Q_th'' 2 (Some (Skalar 0)) None False None None"

definition activation_on :: variable where
  "activation_on =
     create_variable ''on'' ''Boiler__Q_th__OnOff'' 2 None None True None (Some (Array [0]))"

definition activation_model :: on_off_model where
  "activation_model =
     \<lparr>oo_label_full = ''Boiler__Q_th__OnOff'', on = Some activation_on, off = None,
      switch_on = None, switch_off = None, nr_switch_on = None,
      defining_variables = [activation_variable],
      defining_bounds = [(maximum_skalar (Skalar 0) (EPSILON example_config), Skalar 10)]\<rparr>"

definition activation_assignment :: "real \<Rightarrow> assignment" where
  "activation_assignment x l =
     (if l = ''Boiler__Q_th__OnOff__on'' then [1, 0]
      else if l = ''Boiler__Q_th__flow_rate'' then [x, 0]
      else [])"

text \<open>A bus with one input flow, one output flow and an excess penalty.\<close>

definition example_system :: system_model where
  "example_system =
     \<lparr>nr_of_time_steps = 2, dt_in_hours = [1, 1], dt_in_hours_total = 2,
      previous_dt_in_hours = Skalar 1\<rparr>"

definition modelled_flow :: "string \<Rightarrow> flow" where
  "modelled_flow l =
     \<lparr>flow_label = l, size_f = Size_Skalar 50, relative_minimum = Skalar 0,
      relative_maximum = Skalar 1, fixed_relative_profile = None, load_factor_min = None,
      load_factor_max = None, effects_per_flow_hour = [], flow_hours_total_max = None,
      flow_hours_total_min = None, flow_on_off_parameters = None,
      previous_flow_rate = None, bus = ''Heat'', comp = Some ''Boiler'',
      model = Some \<lparr>flow_rate = Some (create_variable ''flow_rate'' (''Boiler__'' @ l) 2
                                        (Some (Skalar 0)) (Some (Skalar 50)) False None None),
                    sum_flow_hours = None\<rparr>\<rparr>"

definition example_bus :: bus_element where
  "example_bus =
     \<lparr>bus_label_full = ''Heat'', excess_penalty_per_flow_hour = Some (Skalar 100000),
      inputs = [modelled_flow ''Q_th''], outputs = [modelled_flow ''Q_demand'']\<rparr>"

definition example_bus_assignment :: assignment where
  "example_bus_assignment l =
     (if l = ''Boiler__Q_th__flow_rate'' then [30, 20]
      else if l = ''Boiler__Q_demand__flow_rate'' then [30, 25]
      else if l = ''Heat__excess_input'' then [0, 5]
      else if l = ''Heat__excess_output'' then [0, 0]
      else [])"

text \<open>
  An on/off model over two flow rates whose previous values are the scalars 5 and 0.
\<close>

definition two_scalar_model :: on_off_model where
  "two_scalar_model =
     \<lparr>oo_label_full = ''Boiler__OnOff'', on = None, off = None,
      switch_on = None, switch_off = None, nr_switch_on = None,
      defining_variables =
        [create_variable ''flow_rate'' ''Boiler__Q_fu'' 2 (Some (Skalar 0)) None False None
           (Some (Skalar 5)),
         create_variable ''flow_rate'' ''Boiler__Q_th'' 2 (Some (Skalar 0)) None False None
           (Some (Skalar 0))],
      defining_bounds = [(Skalar 0, Skalar 10), (Skalar 0, Skalar 10)]\<rparr>"

text \<open>
  A ledger of scalar shares as \<open>ShareAllocationModel.do_modeling\<close> leaves it, and the
  same ledger after the share \<open>fix_effects\<close> has been added.
\<close>

definition ledger_system :: system_model where
  "ledger_system =
     \<lparr>nr_of_time_steps = 2, dt_in_hours = [1, 1], dt_in_hours_total = 2,
      previous_dt_in_hours = Skalar 1\<rparr>"

definition example_ledger :: share_allocation_model where
  "example_ledger =
     \<lparr>sam_element = ''Effects'', sam_label = ''invest'', sum_TS = None,
      sum_total = Some (create_variable ''invest_sum'' ''Effects__invest'' 1 None None False
                          None None),
      shares = Map.empty, eq_time_series = None,
      eq_sum = Some (add_summand (create_equation ''invest_sum'' ''Effects__invest'' Eq)
                       (create_variable ''invest_sum'' ''Effects__invest'' 1 None None False
                          None None)
                       (Skalar (- 1)) None False),
      shares_are_time_series = False, total_max = None, total_min = None,
      max_per_hour = None, min_per_hour = None, sub_models = []\<rparr>"

definition ledger_with_share :: share_allocation_model where
  "ledger_with_share =
     (case add_share example_ledger ledger_system ''fix_effects'' None (Skalar 3) False of
        Returned s \<Rightarrow> s
      | Raised e s \<Rightarrow> s)"

text \<open>
  An investment with fixed and divestment effects, optional or not, and an assignment of
  its \<open>isInvested\<close> binary.
\<close>

definition divest_parameters :: "bool \<Rightarrow> invest_parameters" where
  "divest_parameters opt =
     \<lparr>fixed_size = None, optional = opt, minimum_size = 0, maximum_size = 100,
      fix_effects = [(''costs'', Skalar 1000)], divest_effects = [(''costs'', Skalar 500)],
      specific_effects = [], effects_in_segments = None\<rparr>"

definition divest_model :: "bool \<Rightarrow> investment_model" where
  "divest_model opt =
     \<lparr>im_label_full = ''Boiler__Q_th__Investment'', im_element = ''Boiler__Q_th'',
      size_v = Some (create_variable ''size'' ''Boiler__Q_th__Investment'' 1
                       (Some (Skalar 0)) (Some (Skalar 100)) False None None),
      is_invested = (if opt
                     then Some (create_variable ''isInvested'' ''Boiler__Q_th__Investment'' 1
                                  None None True None None)
                     else None),
      im_invest_parameters = divest_parameters opt\<rparr>"

definition divest_assignment :: "real \<Rightarrow> assignment" where
  "divest_assignment x l =
     (if l = ''Boiler__Q_th__Investment__isInvested'' then [x] else [])"

definition divest_system :: system_model where
  "divest_system =
     \<lparr>nr_of_time_steps = 2, dt_in_hours = [1, 1], dt_in_hours_total = 2,
      previous_dt_in_hours = Skalar 1\<rparr>"

text \<open>
  One segment from \<open>(0, 0)\<close> to \<open>(10, 100)\<close> between a size and a segmented cost, both
  scalar, with the input at 5.
\<close>

definition segment_input :: variable where
  "segment_input = create_variable ''size'' ''Boiler__Investment'' 1 (Some (Skalar 0))
                     (Some (Skalar 10)) False None None"

definition segment_output :: variable where
  "segment_output = create_variable ''costs_segmented'' ''Boiler__SegmentedShares'' 1
                      None None False None None"

definition segment_system :: system_model where
  "segment_system =
     \<lparr>nr_of_time_steps = 2, dt_in_hours = [1, 1], dt_in_hours_total = 2,
      previous_dt_in_hours = Skalar 1\<rparr>"

definition segment_assignment :: assignment where
  "segment_assignment l =
     (if l = ''Boiler__Investment__size'' then [5]
      else if l = ''Boiler__SegmentedShares__costs_segmented'' then [50]
      else if l = ''Boiler__Segment_0__inSegment'' then [1]
      else if l = ''Boiler__Segment_0__lambda0'' then [1 / 2]
      else if l = ''Boiler__Segment_0__lambda1'' then [1 / 2]
      else [])"

section \<open>Properties\<close>

lemmas model_defs =
  and_then_def Let_def item_def indices_def create_equation_def add_summand_def
  add_constant_def create_variable_def

lemmas semantics_defs =
  feasible_def variable_ok_def value_in_domain_def equation_holds_def
  nr_of_single_equations_def summand_length_def summand_rows_def summand_indices_def
  broadcast_length_def equation_row_holds_def summand_row_def summand_term_def
  index_at_def upt_conv_Cons

lemma length_11_D:
  "length (xs::real list) = 11 \<Longrightarrow>
   \<exists>x0 x1 x2 x3 x4 x5 x6 x7 x8 x9 x10. xs = [x0, x1, x2, x3, x4, x5, x6, x7, x8, x9, x10]"
  by (simp add: length_Suc_conv eval_nat_numeral) blast

lemma length_5_D:
  "length (xs::real list) = 5 \<Longrightarrow> \<exists>x0 x1 x2 x3 x4. xs = [x0, x1, x2, x3, x4]"
  by (simp add: length_Suc_conv eval_nat_numeral) blast

lemma length_1_D: "length (xs::real list) = 1 \<Longrightarrow> \<exists>x0. xs = [x0]"
  by (simp add: length_Suc_conv)

subsection \<open>The duration counter\<close>

text \<open>
  C1. Eleven steps of one hour, a previous duration of 0, no minimum and no maximum
  duration, and the binary variable fixed to \<open>[0,0,1,1,1,1,0,1,1,1,0]\<close>:
  \<open>_get_duration_in_hours\<close> returns a duration variable and its constraints, and an
  assignment satisfies the variable's bounds and the constraints exactly when it gives
  the duration variable the values \<open>[0,0,1,2,3,4,0,1,2,3,0]\<close>.
\<close>

theorem duration_round_trip:
  assumes sm: "nr_of_time_steps sm = 11" "dt_in_hours sm = [1, 1, 1, 1, 1, 1, 1, 1, 1, 1, 1]"
              "dt_in_hours_total sm = 11"
    and prev: "get_consecutive_duration cfg (previous_values bv) (previous_dt_in_hours sm)
                 = Inr 0"
    and bv: "length_v bv = 11" "label bv \<noteq> oo_label_full self @ ''__'' @ lbl"
    and a: "a (label bv) = [0, 0, 1, 1, 1, 1, 0, 1, 1, 1, 0]"
  shows "\<exists>dur eqs ws.
           get_duration_in_hours cfg self lbl (Some bv) None None sm (indices sm)
             = Inr (dur, eqs, ws) \<and>
           (feasible a [dur] eqs \<longleftrightarrow> a (label dur) = [0, 0, 1, 2, 3, 4, 0, 1, 2, 3, 0])"
proof (cases "length (a (oo_label_full self @ ''__'' @ lbl)) = 11")
  case True
  from length_11_D [OF True] obtain x0 x1 x2 x3 x4 x5 x6 x7 x8 x9 x10 where
    d: "a (oo_label_full self @ ''__'' @ lbl) = [x0, x1, x2, x3, x4, x5, x6, x7, x8, x9, x10]"
    by (elim exE)
  show ?thesis
    using assms d
    apply (simp add: get_duration_in_hours_def model_defs)
    apply (simp add: semantics_defs)
    apply (rule iffI)
     apply (elim conjE, intro conjI; linarith)
    apply simp
    done
next
  case False
  then show ?thesis
    using assms
    apply (simp add: get_duration_in_hours_def model_defs)
    apply (auto simp add: feasible_def variable_ok_def)
    done
qed

theorem duration_round_trip_witness:
  "\<exists>dur eqs ws.
     get_duration_in_hours example_config round_trip_model ''consecutiveOnHours''
       (Some round_trip_on) None None round_trip_system (indices round_trip_system)
       = Inr (dur, eqs, ws) \<and>
     label dur = ''Boiler__OnOff__consecutiveOnHours'' \<and>
     feasible round_trip_assignment [dur] eqs"
proof -
  have prev: "get_consecutive_duration example_config (previous_values round_trip_on)
                (previous_dt_in_hours round_trip_system) = Inr 0"
    by (simp add: round_trip_on_def round_trip_system_def create_variable_def
        example_config_def length_of_last_duration_def zero_indices_def isclose0_def
        last_n_def)
  obtain dur eqs ws where
    r: "get_duration_in_hours example_config round_trip_model ''consecutiveOnHours''
          (Some round_trip_on) None None round_trip_system (indices round_trip_system)
          = Inr (dur, eqs, ws)"
    and f: "feasible round_trip_assignment [dur] eqs \<longleftrightarrow>
            round_trip_assignment (label dur) = [0, 0, 1, 2, 3, 4, 0, 1, 2, 3, 0]"
    using duration_round_trip [of round_trip_system example_config round_trip_on
        round_trip_model "''consecutiveOnHours''" round_trip_assignment, OF _ _ _ prev]
    by (auto simp add: round_trip_system_def round_trip_on_def round_trip_model_def
        round_trip_assignment_def create_variable_def)
  have l: "label dur = ''Boiler__OnOff__consecutiveOnHours''"
    using r prev
    by (auto simp add: get_duration_in_hours_def model_defs round_trip_system_def
        round_trip_model_def)
  from r f l show ?thesis
    by (simp add: round_trip_assignment_def)
qed

subsection \<open>Switch events\<close>

lemma binary_pair:
  fixes x y :: real
  assumes "x = 0 \<or> x = 1" "y = 0 \<or> y = 1" "x * 10 + y * 10 \<le> 11"
  shows "x - y = 1 \<Longrightarrow> x = 1 \<and> y = 0"
    and "x - y = - 1 \<Longrightarrow> x = 0 \<and> y = 1"
    and "x - y = 0 \<Longrightarrow> x = 0 \<and> y = 0"
  using assms by auto

lemma switch_core:
  fixes x0 x1 x2 x3 x4 y0 y1 y2 y3 y4 n0 :: real
  assumes "x0 = 0 \<or> x0 = 1" "x1 = 0 \<or> x1 = 1" "x2 = 0 \<or> x2 = 1" "x3 = 0 \<or> x3 = 1"
    "x4 = 0 \<or> x4 = 1" "y0 = 0 \<or> y0 = 1" "y1 = 0 \<or> y1 = 1" "y2 = 0 \<or> y2 = 1"
    "y3 = 0 \<or> y3 = 1" "y4 = 0 \<or> y4 = 1"
    and "x0 - y0 = 0" "x1 - y1 = 1" "x2 - y2 = 0" "x3 - y3 = - 1" "x4 - y4 = 1"
    and "x0 * 10 + y0 * 10 \<le> 11" "x1 * 10 + y1 * 10 \<le> 11" "x2 * 10 + y2 * 10 \<le> 11"
    "x3 * 10 + y3 * 10 \<le> 11" "x4 * 10 + y4 * 10 \<le> 11"
    and "n0 = x0 + x1 + x2 + x3 + x4"
  shows "x0 = 0 \<and> x1 = 1 \<and> x2 = 0 \<and> x3 = 0 \<and> x4 = 1 \<and>
         y0 = 0 \<and> y1 = 0 \<and> y2 = 0 \<and> y3 = 1 \<and> y4 = 0 \<and> n0 = 2"
proof -
  have s0: "x0 = 0 \<and> y0 = 0" using assms(1,6,11,16) binary_pair(3) by blast
  have s1: "x1 = 1 \<and> y1 = 0" using assms(2,7,12,17) binary_pair(1) by blast
  have s2: "x2 = 0 \<and> y2 = 0" using assms(3,8,13,18) binary_pair(3) by blast
  have s3: "x3 = 0 \<and> y3 = 1" using assms(4,9,14,19) binary_pair(2) by blast
  have s4: "x4 = 1 \<and> y4 = 0" using assms(5,10,15,20) binary_pair(1) by blast
  from s0 s1 s2 s3 s4 assms(21) show ?thesis by simp
qed

lemma switch_core_bounded:
  fixes x0 x1 x2 x3 x4 y0 y1 y2 y3 y4 n0 u :: real
  assumes "x0 = 0 \<or> x0 = 1" "x1 = 0 \<or> x1 = 1" "x2 = 0 \<or> x2 = 1" "x3 = 0 \<or> x3 = 1"
    "x4 = 0 \<or> x4 = 1" "y0 = 0 \<or> y0 = 1" "y1 = 0 \<or> y1 = 1" "y2 = 0 \<or> y2 = 1"
    "y3 = 0 \<or> y3 = 1" "y4 = 0 \<or> y4 = 1"
    and "x0 - y0 = 0" "x1 - y1 = 1" "x2 - y2 = 0" "x3 - y3 = - 1" "x4 - y4 = 1"
    and "x0 * 10 + y0 * 10 \<le> 11" "x1 * 10 + y1 * 10 \<le> 11" "x2 * 10 + y2 * 10 \<le> 11"
    "x3 * 10 + y3 * 10 \<le> 11" "x4 * 10 + y4 * 10 \<le> 11"
    and "n0 = x0 + x1 + x2 + x3 + x4"
    and "n0 \<le> u"
  shows "x0 = 0 \<and> x1 = 1 \<and> x2 = 0 \<and> x3 = 0 \<and> x4 = 1 \<and>
         y0 = 0 \<and> y1 = 0 \<and> y2 = 0 \<and> y3 = 1 \<and> y4 = 0 \<and> n0 = 2 \<and> 2 \<le> u"
  using switch_core [OF assms(1-21)] assms(22) by simp

lemma last_item_last: "xs \<noteq> [] \<Longrightarrow> last_item xs = Inr (last xs)"
  by (cases xs) (simp_all add: last_item_def)

text \<open>
  C2. Five steps, the on-variable fixed to \<open>[0,1,1,0,1]\<close> and the last previous
  on-value 0, with the switch variables as \<open>do_modeling\<close> creates them (two binaries
  per step, and the number of switch-ons with its optional upper bound):
  \<open>_add_switch_constraints\<close> returns its four equations, and an assignment satisfies
  the variables' domains and the equations exactly when \<open>switch_on\<close> is \<open>[0,1,0,0,1]\<close>,
  \<open>switch_off\<close> is \<open>[0,0,0,1,0]\<close> and \<open>nr_switch_on\<close> is 2 (which the upper bound,
  where there is one, must admit).
\<close>

theorem switch_counting:
  assumes sm: "nr_of_time_steps sm = 5"
    and on_v: "on self = Some on_v" "length_v on_v = 5"
      "label on_v = oo_label_full self @ ''__on''"
      "previous_values on_v = Some (Array prev)" "prev \<noteq> []" "last prev = 0"
    and son: "switch_on self = Some son"
      "son = create_variable ''switchOn'' (oo_label_full self) (nr_of_time_steps sm)
               None None True None None"
    and soff: "switch_off self = Some soff"
      "soff = create_variable ''switchOff'' (oo_label_full self) (nr_of_time_steps sm)
                None None True None None"
    and nr: "nr_switch_on self = Some nr"
      "nr = create_variable ''nrSwitchOn'' (oo_label_full self) 1 None
              (map_option Skalar switch_max) False None None"
    and a: "a (label on_v) = [0, 1, 1, 0, 1]"
  shows "\<exists>eqs. add_switch_constraints self sm = Inr eqs \<and>
           (feasible a [son, soff, nr] eqs \<longleftrightarrow>
              a (label son) = [0, 1, 0, 0, 1] \<and> a (label soff) = [0, 0, 0, 1, 0] \<and>
              a (label nr) = [2] \<and>
              (case switch_max of None \<Rightarrow> True | Some u \<Rightarrow> 2 \<le> u))"
proof (cases "length (a (label son)) = 5 \<and> length (a (label soff)) = 5 \<and>
              length (a (label nr)) = 1")
  case True
  obtain x0 x1 x2 x3 x4 where x: "a (label son) = [x0, x1, x2, x3, x4]"
    using length_5_D True by blast
  obtain y0 y1 y2 y3 y4 where y: "a (label soff) = [y0, y1, y2, y3, y4]"
    using length_5_D True by blast
  obtain n0 where n: "a (label nr) = [n0]"
    using length_1_D True by blast
  have prev: "last_item prev = Inr 0"
    using on_v last_item_last by force
  show ?thesis
  proof (cases switch_max)
    case None
    then show ?thesis
      using assms x y n prev
      apply (simp add: add_switch_constraints_def model_defs)
      apply (simp add: semantics_defs)
      apply (rule iffI)
       apply (elim conjE)
       apply (rule switch_core [of x0 x1 x2 x3 x4 y0 y1 y2 y3 y4 n0]; (assumption | linarith))
      apply simp
      done
  next
    case (Some u)
    then show ?thesis
      using assms x y n prev
      apply (simp add: add_switch_constraints_def model_defs)
      apply (simp add: semantics_defs)
      apply (rule iffI)
       apply (elim conjE)
       apply (rule switch_core_bounded [of x0 x1 x2 x3 x4 y0 y1 y2 y3 y4 n0 u];
          (assumption | linarith))
      apply simp
      done
  qed
next
  case False
  have prev: "last_item prev = Inr 0"
    using on_v last_item_last by force
  from False show ?thesis
    using assms prev
    apply (simp add: add_switch_constraints_def model_defs)
    apply (auto simp add: feasible_def variable_ok_def)
    done
qed

theorem switch_counting_witness:
  "\<exists>eqs. add_switch_constraints switch_model switch_system = Inr eqs \<and>
     feasible switch_assignment
       [create_variable ''switchOn'' ''Boiler__OnOff'' 5 None None True None None,
        create_variable ''switchOff'' ''Boiler__OnOff'' 5 None None True None None,
        create_variable ''nrSwitchOn'' ''Boiler__OnOff'' 1 None None False None None]
       eqs"
  using switch_counting [of switch_system switch_model switch_on_variable "[0]"
      "create_variable ''switchOn'' ''Boiler__OnOff'' 5 None None True None None"
      "create_variable ''switchOff'' ''Boiler__OnOff'' 5 None None True None None"
      "create_variable ''nrSwitchOn'' ''Boiler__OnOff'' 1 None None False None None"
      None switch_assignment]
  by (simp add: switch_system_def switch_model_def switch_on_variable_def
      switch_assignment_def create_variable_def)

subsection \<open>Equations whose terms run over all rows\<close>

lemma broadcast_length_all:
  assumes "\<forall>l\<in>set ls. l = 1 \<or> l = T" "T \<in> set ls \<or> T = 1"
  shows "broadcast_length ls = Some T"
proof (cases "T = 1")
  case True
  with assms have "filter (\<lambda>l. l \<noteq> 1) ls = []" by (auto simp: filter_empty_conv)
  with True show ?thesis by (simp add: broadcast_length_def)
next
  case False
  have all: "\<forall>k\<in>set (filter (\<lambda>l. l \<noteq> 1) ls). k = T" using assms(1) by auto
  have "filter (\<lambda>l. l \<noteq> 1) ls \<noteq> []"
    using assms(2) False by (auto simp: filter_empty_conv)
  then obtain x r where xr: "filter (\<lambda>l. l \<noteq> 1) ls = x # r"
    by (cases "filter (\<lambda>l. l \<noteq> 1) ls") auto
  have "\<forall>k\<in>set (x # r). k = T" using all unfolding xr .
  then have "x = T" "\<forall>k\<in>set r. k = T" by simp_all
  with xr show ?thesis by (simp add: broadcast_length_def list_all_iff)
qed

lemma full_rows_indices: "full_rows T s \<Longrightarrow> summand_indices s = [0..<T]"
  by (auto simp: full_rows_def summand_indices_def)

lemma full_rows_length:
  assumes f: "full_rows T s"
  shows "summand_length s = Some T"
proof -
  have b: "broadcast_length [T, numeric_length (factor s)] = Some T"
    by (rule broadcast_length_all) (use f in \<open>auto simp: full_rows_def\<close>)
  have i: "summand_indices s = [0..<T]" using f by (rule full_rows_indices)
  have l: "length_v (variable s) = T" "\<not> as_sum s" using f by (simp_all add: full_rows_def)
  show ?thesis
    by (simp add: summand_length_def summand_rows_def i l b list_all_iff)
qed

lemma index_at_upt: "i < T \<Longrightarrow> index_at [0..<T] i = i"
  by (simp add: index_at_def)

lemma full_rows_row:
  assumes f: "full_rows T s" and i: "i < T"
  shows "summand_row a s i = numeric_at (factor s) i * a (label (variable s)) ! i"
proof -
  have idx: "summand_indices s = [0..<T]" using f by (rule full_rows_indices)
  have l: "\<not> as_sum s" using f by (simp add: full_rows_def)
  show ?thesis
    by (simp add: summand_row_def summand_term_def idx l index_at_upt [OF i])
qed

lemma full_rows_nr:
  assumes "\<forall>s\<in>set (summands e). full_rows T s"
    and "numeric_length (constant_e e) = 1 \<or> numeric_length (constant_e e) = T"
    and "summands e \<noteq> [] \<or> numeric_length (constant_e e) = T"
  shows "nr_of_single_equations e = Some T"
proof -
  have m: "map (\<lambda>s. the (summand_length s)) (summands e) = map (\<lambda>s. T) (summands e)"
    using assms(1) by (intro map_cong) (auto simp: full_rows_length)
  have n: "\<forall>s\<in>set (summands e). summand_length s \<noteq> None"
    using assms(1) by (auto simp: full_rows_length)
  have b: "broadcast_length (numeric_length (constant_e e) # map (\<lambda>s. T) (summands e)) = Some T"
    by (rule broadcast_length_all) (use assms(2,3) in \<open>auto simp: image_constant_conv\<close>)
  have la: "list_all (\<lambda>s. summand_length s \<noteq> None) (summands e)"
    using n by (simp add: list_all_iff)
  show ?thesis
    unfolding nr_of_single_equations_def m using la b by simp
qed

lemma full_rows_holds:
  assumes "\<forall>s\<in>set (summands e). full_rows T s"
    and "numeric_length (constant_e e) = 1 \<or> numeric_length (constant_e e) = T"
    and "summands e \<noteq> [] \<or> numeric_length (constant_e e) = T"
  shows "equation_holds a e \<longleftrightarrow> (\<forall>i<T. equation_row_holds a e i)"
  using full_rows_nr [OF assms] by (auto simp add: equation_holds_def list_all_iff)

lemma full_rows_sum:
  assumes "\<forall>s\<in>set ss. full_rows T s" "i < T"
  shows "sum_list (map (\<lambda>s. summand_row a s i) ss)
         = sum_list (map (\<lambda>s. numeric_at (factor s) i * a (label (variable s)) ! i) ss)"
  using assms by (intro arg_cong [where f = sum_list] map_cong) (auto simp: full_rows_row)

lemma fold_add_summand:
  "fold (\<lambda>v e. add_summand e v f None False) vs e
   = e\<lparr>summands := summands e @ map (term_of f) vs\<rparr>"
  by (induction vs arbitrary: e) (simp_all add: add_summand_def term_of_def)

lemma add_summand_term_of:
  "add_summand e v f None False = e\<lparr>summands := summands e @ [term_of f v]\<rparr>"
  by (simp add: add_summand_def term_of_def)

lemma fold_term_of:
  "fold (\<lambda>v e. e\<lparr>summands := summands e @ [term_of f v]\<rparr>) vs e
   = e\<lparr>summands := summands e @ map (term_of f) vs\<rparr>"
  by (induction vs arbitrary: e) simp_all

lemma full_rows_term_of:
  "length_v v = T \<Longrightarrow> full_rows T (term_of (Skalar c) v)"
  by (simp add: full_rows_def term_of_def)

lemma sum_term_of:
  assumes "\<forall>v\<in>set vs. length_v v = T" "t < T"
  shows "sum_list (map (\<lambda>v. summand_row a (term_of (Skalar c) v) t) vs)
         = c * sum_list (map (\<lambda>v. a (label v) ! t) vs)"
  using assms
proof (induction vs)
  case Nil
  then show ?case by simp
next
  case (Cons v vs)
  have "summand_row a (term_of (Skalar c) v) t = c * a (label v) ! t"
    using full_rows_row [OF full_rows_term_of, of v T t a c] Cons.prems
    by (simp add: term_of_def)
  with Cons show ?case by (simp add: algebra_simps)
qed

lemma numeric_at_maximum_skalar:
  "numeric_length x = 1 \<or> t < numeric_length x \<Longrightarrow>
   numeric_at (maximum_skalar x c) t = max (numeric_at x t) c"
  by (cases x) auto

lemma numeric_at_scale:
  "numeric_length x = 1 \<or> t < numeric_length x \<Longrightarrow>
   numeric_at (scale c x) t = c * numeric_at x t"
  by (cases x) auto

lemma numeric_length_maximum_skalar [simp]:
  "numeric_length (maximum_skalar x c) = numeric_length x"
  by (cases x) auto

lemma numeric_length_scale [simp]: "numeric_length (scale c x) = numeric_length x"
  by (cases x) auto

lemma np_max_defined: "0 < numeric_length u \<Longrightarrow> \<exists>m. np_max u = Inr m"
  by (cases u rule: np_max.cases) auto

lemma full_rows_term_at:
  "length_v v = T \<Longrightarrow> numeric_length f = 1 \<or> numeric_length f = T \<Longrightarrow>
   full_rows T (term_at [0..<T] f v)"
  by (simp add: full_rows_def term_at_def)

lemma row_term_at:
  assumes "length_v v = T" "numeric_length f = 1 \<or> numeric_length f = T" "t < T"
  shows "summand_row a (term_at [0..<T] f v) t = numeric_at f t * a (label v) ! t"
  using full_rows_row [OF full_rows_term_at [OF assms(1,2)] assms(3), of a]
  by (simp add: term_at_def)

lemma activation_equations:
  assumes self: "OnOffModel_init cfg el [var] [(lower, upper)] lbl = Inr self0"
      "self = self0\<lparr>on := Some on_v\<rparr>"
    and T: "nr_of_time_steps sm = T" "0 < T"
    and shapes: "numeric_length lower = 1 \<or> numeric_length lower = T"
      "numeric_length upper = 1 \<or> numeric_length upper = T"
  shows "\<exists>ws. add_on_constraints cfg self sm (indices sm) =
           Inr ([\<lparr>eq_label = oo_label_full self @ ''_On_Constraint_1'', eq_kind = Ineq,
                   summands = [term_at [0..<T] (Skalar (- 1)) var,
                               term_at [0..<T]
                                 (maximum_skalar (maximum_skalar lower (EPSILON cfg))
                                    (EPSILON cfg)) on_v],
                   constant_e = Skalar 0\<rparr>,
                 \<lparr>eq_label = oo_label_full self @ ''_On_Constraint_2'', eq_kind = Ineq,
                   summands = [term_at [0..<T] (Skalar 1) var,
                               term_at [0..<T] (scale (- 1) upper) on_v],
                   constant_e = Skalar 0\<rparr>], ws)"
proof -
  have "0 < numeric_length upper" using shapes T by auto
  then obtain m where m: "np_max upper = Inr m" using np_max_defined by blast
  show ?thesis
    using self T m
    by (auto simp add: add_on_constraints_def OnOffModel_init_def model_defs term_at_def)
qed

subsection \<open>Activation\<close>

text \<open>
  C3, as amended. One defining variable with the bound pair \<open>[lower, upper]\<close>, the
  model built by \<open>OnOffModel.__init__\<close>, an on-variable, and a step \<open>t\<close>:
  \<open>_add_on_constraints\<close> returns its two inequalities, each with one row per step. Where
  \<open>on(t) = 0\<close>, row \<open>t\<close> of both holds exactly when the variable is 0 at \<open>t\<close>. Where
  \<open>on(t) = 1\<close>, row \<open>t\<close> of both holds exactly when the variable lies between
  \<open>max(lower(t), EPSILON)\<close> and \<open>upper(t)\<close>: the upper bound is the variable's own, the
  lower bound is raised to \<open>EPSILON\<close> where it is smaller.
\<close>

theorem activation_single:
  assumes self: "OnOffModel_init cfg el [var] [(lower, upper)] lbl = Inr self0"
      "self = self0\<lparr>on := Some on_v\<rparr>"
    and T: "nr_of_time_steps sm = T" "t < T"
    and lens: "length_v var = T" "length_v on_v = T"
    and shapes: "numeric_length lower = 1 \<or> numeric_length lower = T"
      "numeric_length upper = 1 \<or> numeric_length upper = T"
  shows "(\<exists>c1 c2 ws. add_on_constraints cfg self sm (indices sm) = Inr ([c1, c2], ws) \<and>
            nr_of_single_equations c1 = Some T \<and> nr_of_single_equations c2 = Some T) \<and>
         (a (label on_v) ! t = 0 \<longrightarrow>
            (on_constraints_hold_at cfg self sm a t \<longleftrightarrow> a (label var) ! t = 0)) \<and>
         (a (label on_v) ! t = 1 \<longrightarrow>
            (on_constraints_hold_at cfg self sm a t \<longleftrightarrow>
               max (numeric_at lower t) (EPSILON cfg) \<le> a (label var) ! t \<and>
               a (label var) ! t \<le> numeric_at upper t))"
proof -
  have T0: "0 < T" using T by simp
  from activation_equations [OF self T(1) T0 shapes] obtain ws where
    eqs: "add_on_constraints cfg self sm (indices sm) =
           Inr ([\<lparr>eq_label = oo_label_full self @ ''_On_Constraint_1'', eq_kind = Ineq,
                   summands = [term_at [0..<T] (Skalar (- 1)) var,
                               term_at [0..<T]
                                 (maximum_skalar (maximum_skalar lower (EPSILON cfg))
                                    (EPSILON cfg)) on_v],
                   constant_e = Skalar 0\<rparr>,
                 \<lparr>eq_label = oo_label_full self @ ''_On_Constraint_2'', eq_kind = Ineq,
                   summands = [term_at [0..<T] (Skalar 1) var,
                               term_at [0..<T] (scale (- 1) upper) on_v],
                   constant_e = Skalar 0\<rparr>], ws)"
    (is "_ = Inr ([?c1, ?c2], ws)")
    by blast
  have n1: "nr_of_single_equations ?c1 = Some T"
    by (rule full_rows_nr) (use lens shapes in \<open>auto intro!: full_rows_term_at\<close>)
  have n2: "nr_of_single_equations ?c2 = Some T"
    by (rule full_rows_nr) (use lens shapes in \<open>auto intro!: full_rows_term_at\<close>)
  have lt: "numeric_length lower = 1 \<or> t < numeric_length lower"
    and ut: "numeric_length upper = 1 \<or> t < numeric_length upper"
    using shapes T by auto
  have r1: "summand_row a (term_at [0..<T] (Skalar (- 1)) var) t = - a (label var) ! t"
    using row_term_at [of var T "Skalar (- 1)" t a] lens T by simp
  have r2: "summand_row a (term_at [0..<T] (Skalar 1) var) t = a (label var) ! t"
    using row_term_at [of var T "Skalar 1" t a] lens T by simp
  have r3: "summand_row a (term_at [0..<T]
              (maximum_skalar (maximum_skalar lower (EPSILON cfg)) (EPSILON cfg)) on_v) t
            = max (numeric_at lower t) (EPSILON cfg) * a (label on_v) ! t"
    using row_term_at [of on_v T
        "maximum_skalar (maximum_skalar lower (EPSILON cfg)) (EPSILON cfg)" t a]
      lens T shapes lt
    by (simp add: numeric_at_maximum_skalar)
  have r4: "summand_row a (term_at [0..<T] (scale (- 1) upper) on_v) t
            = - numeric_at upper t * a (label on_v) ! t"
    using row_term_at [of on_v T "scale (- 1) upper" t a] lens T shapes ut
    by (simp add: numeric_at_scale)
  have h: "on_constraints_hold_at cfg self sm a t \<longleftrightarrow>
             max (numeric_at lower t) (EPSILON cfg) * a (label on_v) ! t \<le> a (label var) ! t \<and>
             a (label var) ! t \<le> numeric_at upper t * a (label on_v) ! t"
    by (simp add: on_constraints_hold_at_def eqs equation_row_holds_def r1 r2 r3 r4)
  show ?thesis
    using eqs n1 n2 h by auto
qed

lemma activation_model_init:
  "OnOffModel_init example_config ''Boiler__Q_th'' [activation_variable]
     [(Skalar 0, Skalar 10)] ''OnOff'' = Inr (activation_model\<lparr>on := None\<rparr>)"
  by (simp add: OnOffModel_init_def activation_model_def)

theorem activation_single_witness:
  "on_constraints_hold_at example_config activation_model activation_system
     (activation_assignment 5) 0 \<and>
   on_constraints_hold_at example_config activation_model activation_system
     (activation_assignment 5) 1"
proof -
  have s: "activation_model = (activation_model\<lparr>on := None\<rparr>)\<lparr>on := Some activation_on\<rparr>"
    by (simp add: activation_model_def)
  have l: "length_v activation_variable = 2" "length_v activation_on = 2"
    "label activation_on = ''Boiler__Q_th__OnOff__on''"
    "label activation_variable = ''Boiler__Q_th__flow_rate''"
    by (simp_all add: activation_variable_def activation_on_def create_variable_def)
  have n: "nr_of_time_steps activation_system = 2" by (simp add: activation_system_def)
  have a0: "on_constraints_hold_at example_config activation_model activation_system
              (activation_assignment 5) 0"
    using activation_single [OF activation_model_init s n _ l(1,2), of 0 "activation_assignment 5"]
    by (simp add: l activation_assignment_def example_config_def)
  have a1: "on_constraints_hold_at example_config activation_model activation_system
              (activation_assignment 5) 1"
    using activation_single [OF activation_model_init s n _ l(1,2), of 1 "activation_assignment 5"]
    by (simp add: l activation_assignment_def example_config_def)
  from a0 a1 show ?thesis by simp
qed

text \<open>
  C3 as stated fails: with the bound pair \<open>[0, 10]\<close> and \<open>on(0) = 1\<close>, the value 0
  respects the bound pair and violates the activation constraints.
\<close>

theorem activation_lower_bound_counterexample:
  "OnOffModel_init example_config ''Boiler__Q_th'' [activation_variable]
     [(Skalar 0, Skalar 10)] ''OnOff'' = Inr (activation_model\<lparr>on := None\<rparr>) \<and>
   activation_assignment 0 (label activation_on) ! 0 = 1 \<and>
   numeric_at (Skalar 0) 0 \<le> activation_assignment 0 (label activation_variable) ! 0 \<and>
   activation_assignment 0 (label activation_variable) ! 0 \<le> numeric_at (Skalar 10) 0 \<and>
   \<not> on_constraints_hold_at example_config activation_model activation_system
       (activation_assignment 0) 0"
  by (simp add: activation_model_init)
     (simp add: on_constraints_hold_at_def add_on_constraints_def activation_model_def
       activation_system_def activation_assignment_def activation_variable_def
       activation_on_def example_config_def model_defs equation_row_holds_def
       summand_row_def summand_term_def summand_indices_def index_at_def)

subsection \<open>The bus balance\<close>

lemma bus_balance_rows:
  assumes ok: "BusModel_do_modeling (BusModel_init b) b sm = Inr (m, eq, calls)"
    and ins: "all_or_error (map model_flow_rate (inputs b)) = Inr ins"
    and outs: "all_or_error (map model_flow_rate (outputs b)) = Inr outs"
    and T: "nr_of_time_steps sm = T" "0 < T"
    and lens: "\<forall>v\<in>set (ins @ outs). length_v v = T"
  shows "(equation_holds a eq \<longleftrightarrow>
           (\<forall>t<T. sum_list (map (\<lambda>v. a (label v) ! t) ins)
                   - sum_list (map (\<lambda>v. a (label v) ! t) outs)
                   + (if with_excess b
                      then a (bus_label_full b @ ''__excess_input'') ! t
                           - a (bus_label_full b @ ''__excess_output'') ! t
                      else 0) = 0))"
proof (cases "with_excess b")
  case False
  let ?ss = "map (term_of (Skalar 1)) ins @ map (term_of (Skalar (- 1))) outs"
  from ok ins outs False have eq:
    "eq = \<lparr>eq_label = bus_label_full b @ ''_busBalance'', eq_kind = Eq,
           summands = ?ss, constant_e = Skalar 0\<rparr>"
    by (simp add: BusModel_do_modeling_def BusModel_init_def and_then_def Let_def
        fold_term_of add_summand_term_of create_equation_def)
  have full: "\<forall>s\<in>set ?ss. full_rows T s"
    using lens by (auto simp: full_rows_term_of)
  have rows: "equation_row_holds a eq t \<longleftrightarrow>
      sum_list (map (\<lambda>v. a (label v) ! t) ins) - sum_list (map (\<lambda>v. a (label v) ! t) outs) = 0"
    if "t < T" for t
    using lens that
    by (simp add: eq equation_row_holds_def o_def sum_term_of [where T = T])
  show ?thesis
  proof (cases "?ss = []")
    case True
    then have "ins = []" "outs = []" by simp_all
    then show ?thesis
      using False
      by (simp add: eq equation_holds_def nr_of_single_equations_def broadcast_length_def
          equation_row_holds_def)
  next
    case ne: False
    have "equation_holds a eq \<longleftrightarrow> (\<forall>i<T. equation_row_holds a eq i)"
      by (rule full_rows_holds) (use full ne in \<open>simp_all add: eq\<close>)
    then show ?thesis using rows False by simp
  qed
next
  case True
  then obtain pen where pen: "excess_penalty_per_flow_hour b = Some pen"
    by (auto simp: with_excess_def split: if_splits)
  let ?ein = "create_variable ''excess_input'' (bus_label_full b) T (Some (Skalar 0)) None False None None"
  let ?eout = "create_variable ''excess_output'' (bus_label_full b) T (Some (Skalar 0)) None False None None"
  let ?ss = "map (term_of (Skalar 1)) ins @ map (term_of (Skalar (- 1))) outs
             @ [term_of (Skalar (- 1)) ?eout, term_of (Skalar 1) ?ein]"
  from ok ins outs True pen T have eq:
    "eq = \<lparr>eq_label = bus_label_full b @ ''_busBalance'', eq_kind = Eq,
           summands = ?ss, constant_e = Skalar 0\<rparr>"
    by (auto simp add: BusModel_do_modeling_def BusModel_init_def and_then_def Let_def
        fold_term_of create_equation_def add_summand_term_of split: sum.splits)
  have full: "\<forall>s\<in>set ?ss. full_rows T s"
    using lens by (auto simp: full_rows_term_of create_variable_def)
  have rows: "equation_row_holds a eq t \<longleftrightarrow>
      sum_list (map (\<lambda>v. a (label v) ! t) ins) - sum_list (map (\<lambda>v. a (label v) ! t) outs)
      + (a (bus_label_full b @ ''__excess_input'') ! t
         - a (bus_label_full b @ ''__excess_output'') ! t) = 0"
    if "t < T" for t
    using lens that
      full_rows_row [OF full_rows_term_of, of ?ein T t a 1]
      full_rows_row [OF full_rows_term_of, of ?eout T t a "- 1"]
    by (simp add: eq equation_row_holds_def o_def sum_term_of [where T = T])
       (auto simp add: term_of_def create_variable_def)
  have "equation_holds a eq \<longleftrightarrow> (\<forall>i<T. equation_row_holds a eq i)"
    by (rule full_rows_holds) (use full in \<open>simp_all add: eq\<close>)
  then show ?thesis using rows True by simp
qed

lemma bus_excess:
  assumes ok: "BusModel_do_modeling (BusModel_init b) b sm = Inr (m, eq, calls)"
    and T: "nr_of_time_steps sm = T"
    and ex: "with_excess b"
  shows "\<exists>ein eout pen fac.
           excess_input m = Some ein \<and> excess_output m = Some eout \<and>
           label ein = bus_label_full b @ ''__excess_input'' \<and>
           label eout = bus_label_full b @ ''__excess_output'' \<and>
           lower_bound ein = Some (Skalar 0) \<and> lower_bound eout = Some (Skalar 0) \<and>
           excess_penalty_per_flow_hour b = Some pen \<and>
           np_multiply (Array (dt_in_hours sm)) pen = Inr fac \<and>
           calls = [add_share_to_penalty (bus_label_full b @ ''__excess_input'') ein fac,
                    add_share_to_penalty (bus_label_full b @ ''__excess_output'') eout fac] \<and>
           (variable_ok a ein \<longrightarrow> (\<forall>t<T. 0 \<le> a (label ein) ! t)) \<and>
           (variable_ok a eout \<longrightarrow> (\<forall>t<T. 0 \<le> a (label eout) ! t))"
proof -
  from ex obtain pen where pen: "excess_penalty_per_flow_hour b = Some pen"
    by (auto simp: with_excess_def split: if_splits)
  from ok ex pen obtain fac where fac: "np_multiply (Array (dt_in_hours sm)) pen = Inr fac"
    by (auto simp add: BusModel_do_modeling_def and_then_def Let_def split: sum.splits)
  let ?ein = "create_variable ''excess_input'' (bus_label_full b) T (Some (Skalar 0)) None
                False None None"
  let ?eout = "create_variable ''excess_output'' (bus_label_full b) T (Some (Skalar 0)) None
                 False None None"
  from ok ex pen fac T have m: "excess_input m = Some ?ein" "excess_output m = Some ?eout"
    and c: "calls = [add_share_to_penalty (bus_label_full b @ ''__excess_input'') ?ein fac,
                     add_share_to_penalty (bus_label_full b @ ''__excess_output'') ?eout fac]"
    by (auto simp add: BusModel_do_modeling_def BusModel_init_def and_then_def Let_def
        split: sum.splits)
  have b1: "variable_ok a ?ein \<longrightarrow> (\<forall>t<T. 0 \<le> a (label ?ein) ! t)"
    by (simp add: variable_ok_def value_in_domain_def create_variable_def list_all_iff)
  have b2: "variable_ok a ?eout \<longrightarrow> (\<forall>t<T. 0 \<le> a (label ?eout) ! t)"
    by (simp add: variable_ok_def value_in_domain_def create_variable_def list_all_iff)
  have l: "label ?ein = bus_label_full b @ ''__excess_input''"
    "label ?eout = bus_label_full b @ ''__excess_output''"
    "lower_bound ?ein = Some (Skalar 0)" "lower_bound ?eout = Some (Skalar 0)"
    by (simp_all add: create_variable_def)
  from m c b1 b2 l pen fac show ?thesis by blast
qed

text \<open>
  C6. For a bus whose flows have rate variables of one entry per step:
  \<open>BusModel.do_modeling\<close> returns the balance equation, which an assignment satisfies
  exactly when at every step the input flow rates minus the output flow rates, plus
  \<open>excess_input - excess_output\<close> when excess is enabled, are 0. With excess, the two
  excess variables have the lower bound 0 (so they are at least 0 in every assignment in
  their domain), and each is registered as a penalty share whose factor is the step
  durations times the excess penalty.
\<close>

theorem bus_balance:
  assumes ok: "BusModel_do_modeling (BusModel_init b) b sm = Inr (m, eq, calls)"
    and ins: "all_or_error (map model_flow_rate (inputs b)) = Inr ins"
    and outs: "all_or_error (map model_flow_rate (outputs b)) = Inr outs"
    and T: "nr_of_time_steps sm = T" "0 < T"
    and lens: "\<forall>v\<in>set (ins @ outs). length_v v = T"
  shows "(equation_holds a eq \<longleftrightarrow>
           (\<forall>t<T. sum_list (map (\<lambda>v. a (label v) ! t) ins)
                   - sum_list (map (\<lambda>v. a (label v) ! t) outs)
                   + (if with_excess b
                      then a (bus_label_full b @ ''__excess_input'') ! t
                           - a (bus_label_full b @ ''__excess_output'') ! t
                      else 0) = 0)) \<and>
         (with_excess b \<longrightarrow>
           (\<exists>ein eout pen fac.
              excess_input m = Some ein \<and> excess_output m = Some eout \<and>
              label ein = bus_label_full b @ ''__excess_input'' \<and>
              label eout = bus_label_full b @ ''__excess_output'' \<and>
              lower_bound ein = Some (Skalar 0) \<and> lower_bound eout = Some (Skalar 0) \<and>
              excess_penalty_per_flow_hour b = Some pen \<and>
              np_multiply (Array (dt_in_hours sm)) pen = Inr fac \<and>
              calls = [add_share_to_penalty (bus_label_full b @ ''__excess_input'') ein fac,
                       add_share_to_penalty (bus_label_full b @ ''__excess_output'') eout fac] \<and>
              (variable_ok a ein \<longrightarrow> (\<forall>t<T. 0 \<le> a (label ein) ! t)) \<and>
              (variable_ok a eout \<longrightarrow> (\<forall>t<T. 0 \<le> a (label eout) ! t))))"
  using bus_balance_rows [OF assms, of a] bus_excess [OF ok T(1), of a] by blast

theorem bus_balance_witness:
  "\<exists>m eq calls.
     BusModel_do_modeling (BusModel_init example_bus) example_bus example_system
       = Inr (m, eq, calls) \<and>
     equation_holds example_bus_assignment eq \<and> length calls = 2"
proof -
  obtain m eq calls where
    ok: "BusModel_do_modeling (BusModel_init example_bus) example_bus example_system
           = Inr (m, eq, calls)"
    by (simp add: BusModel_do_modeling_def BusModel_init_def example_bus_def
        example_system_def modelled_flow_def model_flow_rate_def with_excess_def
        np_multiply_def and_then_def Let_def)
  let ?i = "create_variable ''flow_rate'' ''Boiler__Q_th'' 2 (Some (Skalar 0))
              (Some (Skalar 50)) False None None"
  let ?o = "create_variable ''flow_rate'' ''Boiler__Q_demand'' 2 (Some (Skalar 0))
              (Some (Skalar 50)) False None None"
  have ins: "all_or_error (map model_flow_rate (inputs example_bus)) = Inr [?i]"
    by (simp add: example_bus_def modelled_flow_def model_flow_rate_def and_then_def)
  have outs: "all_or_error (map model_flow_rate (outputs example_bus)) = Inr [?o]"
    by (simp add: example_bus_def modelled_flow_def model_flow_rate_def and_then_def)
  have T: "nr_of_time_steps example_system = 2" by (simp add: example_system_def)
  have lens: "\<forall>v\<in>set ([?i] @ [?o]). length_v v = 2" by (simp add: create_variable_def)
  have all2: "(\<forall>t<2::nat. P t) \<longleftrightarrow> P 0 \<and> P 1" for P
    by (auto simp add: less_2_cases_iff)
  from bus_balance [OF ok ins outs T _ lens, of example_bus_assignment]
  have "equation_holds example_bus_assignment eq" "length calls = 2"
    by (auto simp add: all2 example_bus_assignment_def create_variable_def with_excess_def
        example_bus_def)
  with ok show ?thesis by blast
qed

subsection \<open>The share ledger\<close>

lemma example_ledger_modelled:
  "and_then (ShareAllocationModel_init ''Effects'' ''invest'' False None None None None)
     (\<lambda>s. ShareAllocationModel_do_modeling s ledger_system) = Inr example_ledger"
  by (simp add: ShareAllocationModel_init_def ShareAllocationModel_do_modeling_def
      and_then_def Let_def example_ledger_def)

lemma modelled_ledger_has_equations:
  assumes "ShareAllocationModel_do_modeling self sm = Inr s"
  shows "eq_sum s \<noteq> None \<and> (shares_are_time_series s \<longrightarrow> eq_time_series s \<noteq> None)"
  using assms
  by (auto simp add: ShareAllocationModel_do_modeling_def and_then_def Let_def
      split: if_splits sum.splits)


lemma single_share_label:
  "SingleShareModel_init element name var fac sas = Inr new_share \<Longrightarrow>
   ssm_label new_share = name \<and> label (single_share new_share) = element @ ''__'' @ name \<and>
   label_short (single_share new_share) = name"
  by (cases var)
     (auto simp add: SingleShareModel_init_def and_then_def Let_def Variable_def
       split: if_splits)




text \<open>
  C8. When the name is already among the shares (and the new share model can be built
  and the target equation exists), \<open>add_share\<close> raises the assertion error and leaves
  a changed ledger behind: the new share model is the last of \<open>sub_models\<close>, and the
  target equation has the new share's variable as a further term with the factor 1; the
  shares are as before.
\<close>

theorem add_share_duplicate_not_atomic:
  assumes dup: "shares self name \<noteq> None"
    and new: "SingleShareModel_init (sam_element self) name var fac sas = Inr new_share"
    and target: "(if sas \<or> \<not> shares_are_time_series self then eq_sum self
                  else eq_time_series self) = Some target"
  shows "\<exists>s'. add_share self sm name var fac sas = Raised AssertionError s' \<and>
           sub_models s' = sub_models self @ [new_share] \<and>
           (if sas \<or> \<not> shares_are_time_series self then eq_sum s' else eq_time_series s')
             = Some (add_summand target (single_share new_share) (Skalar 1) None False) \<and>
           shares s' = shares self \<and> s' \<noteq> self"
proof -
  have l: "ssm_label new_share = name" using single_share_label [OF new] by simp
  let ?t = "add_summand target (single_share new_share) (Skalar 1) None False"
  let ?s1 = "if sas \<or> \<not> shares_are_time_series self then self\<lparr>eq_sum := Some ?t\<rparr>
             else self\<lparr>eq_time_series := Some ?t\<rparr>"
  let ?s2 = "?s1\<lparr>sub_models := sub_models ?s1 @ [new_share]\<rparr>"
  have sh: "shares ?s2 = shares self" by simp
  have r: "add_share self sm name var fac sas = Raised AssertionError ?s2"
    unfolding add_share_def Let_def new target using dup l sh by simp
  have sub: "sub_models ?s2 = sub_models self @ [new_share]" by simp
  have eq: "(if sas \<or> \<not> shares_are_time_series self then eq_sum ?s2 else eq_time_series ?s2)
              = Some ?t"
    by simp
  have ne: "?s2 \<noteq> self"
  proof
    assume "?s2 = self"
    then have "sub_models ?s2 = sub_models self" by (rule arg_cong)
    with sub show False by simp
  qed
  from r sub eq sh ne show ?thesis by blast
qed

theorem add_share_duplicate_not_atomic_witness:
  "\<exists>s'. add_share ledger_with_share ledger_system ''fix_effects'' None (Skalar 3) False
           = Raised AssertionError s' \<and>
         length (sub_models s') = 2 \<and> s' \<noteq> ledger_with_share"
proof -
  have r: "add_share example_ledger ledger_system ''fix_effects'' None (Skalar 3) False
           = Returned ledger_with_share"
    by (simp add: ledger_with_share_def add_share_def SingleShareModel_init_def and_then_def
        Let_def example_ledger_def)
  have s: "shares ledger_with_share ''fix_effects'' \<noteq> None"
    "length (sub_models ledger_with_share) = 1" "sam_element ledger_with_share = ''Effects''"
    "\<not> shares_are_time_series ledger_with_share" "eq_sum ledger_with_share \<noteq> None"
    by (simp_all add: ledger_with_share_def add_share_def SingleShareModel_init_def
        and_then_def Let_def example_ledger_def)
  obtain new_share where
    n: "SingleShareModel_init (sam_element ledger_with_share) ''fix_effects'' None (Skalar 3)
          False = Inr new_share"
    by (simp add: SingleShareModel_init_def and_then_def Let_def)
  obtain target where
    t: "(if False \<or> \<not> shares_are_time_series ledger_with_share
         then eq_sum ledger_with_share else eq_time_series ledger_with_share) = Some target"
    using s by auto
  from add_share_duplicate_not_atomic [OF s(1) n t, of ledger_system] s(2)
  show ?thesis by auto
qed

subsection \<open>The default size of a flow\<close>

text \<open>
  C9. A flow constructed with the size \<open>None\<close> or 0 has the size
  \<open>CONFIG.modeling.BIG\<close>.
\<close>

theorem flow_default_size:
  assumes "Flow_init cfg lbl b size_a frp rmin rmax eff oop fhmax fhmin lfmin lfmax pfr
             = Inr (f, ws)"
    and "size_a = None \<or> size_a = Some (Size_Skalar 0)"
  shows "size_f f = Size_Skalar (BIG cfg)"
  using assms
  by (auto simp add: Flow_init_def and_then_def Let_def size_or_default_def
      split: sum.splits)

theorem flow_default_size_witness:
  "\<exists>f ws. Flow_init example_config ''Q_th'' ''Heat'' (Some (Size_Skalar 0)) None (Skalar 0)
             (Skalar 1) None None None None None None None = Inr (f, ws) \<and>
          size_f f = Size_Skalar 10000000"
proof -
  obtain f ws where
    ok: "Flow_init example_config ''Q_th'' ''Heat'' (Some (Size_Skalar 0)) None (Skalar 0)
           (Skalar 1) None None None None None None None = Inr (f, ws)"
    by (simp add: Flow_init_def Flow_plausibility_checks_def np_any_greater_def
        and_then_def Let_def)
  from flow_default_size [OF ok] have "size_f f = Size_Skalar (BIG example_config)" by simp
  with ok show ?thesis by (auto simp add: example_config_def)
qed

subsection \<open>Previous on-values\<close>

text \<open>
  C10 at two defining variables whose previous values are the scalars 5 and 0: there is
  one previous step, in which the first variable is not 0, and \<open>_previous_on_values\<close>
  returns the two entries \<open>[1, 0]\<close>, one per variable.
\<close>

theorem previous_on_values_two_scalars:
  "previous_on_values two_scalar_model (EPSILON example_config) = Inr [1, 0]"
  by (simp add: previous_on_values_def two_scalar_model_def create_variable_def
      List.map_filter_simps np_array_def and_then_def isclose0_def example_config_def)

text \<open>
  Without previous values the result is \<open>[0]\<close>; with arrays of one length as previous
  values it has, for every previous step, 1 exactly where some array is not within
  \<open>epsilon\<close> of 0; with a single scalar it has the one entry for that scalar.
\<close>

lemma previous_on_values_none:
  "List.map_filter previous_values (defining_variables self) = [] \<Longrightarrow>
   previous_on_values self epsilon = Inr [0]"
  by (simp add: previous_on_values_def)

lemma previous_on_values_arrays:
  assumes "List.map_filter previous_values (defining_variables self) = map Array rows"
    and "rows \<noteq> []" and "\<forall>r\<in>set rows. length r = n"
  shows "previous_on_values self epsilon =
           Inr (map (\<lambda>j. if \<exists>r\<in>set rows. epsilon < \<bar>r ! j\<bar> then 1 else 0) [0..<n])"
proof -
  have h: "length (hd rows) = n" using assms(2,3) by (cases rows) auto
  have a: "np_array (map Array rows) = Inr (Array2 rows)"
    using assms(2,3) h
    by (cases rows) (auto simp add: np_array_def list_all_iff o_def map_idI)
  show ?thesis
    using assms(2)
    by (simp add: previous_on_values_def assms(1) a and_then_def h list_ex_iff isclose0_def
        not_le)
qed

lemma previous_on_values_one_scalar:
  "List.map_filter previous_values (defining_variables self) = [Skalar x] \<Longrightarrow>
   previous_on_values self epsilon = Inr [if epsilon < \<bar>x\<bar> then 1 else 0]"
  by (simp add: previous_on_values_def np_array_def and_then_def isclose0_def not_le)

subsection \<open>Divestment shares\<close>

lemma segmented_calls_names:
  assumes "SegmentedSharesModel_do_modeling el vs ss cbo lbl sm = Inr (calls, eqs)"
  shows "divestment_calls calls = []"
  using assms
  by (auto simp add: SegmentedSharesModel_do_modeling_def and_then_def Let_def
      divestment_calls_def filter_empty_conv add_share_to_invest_def
      add_share_to_operation_def split: sum.splits if_splits prod.splits)

lemma divestment_calls_append [simp]:
  "divestment_calls (xs @ ys) = divestment_calls xs @ divestment_calls ys"
  by (simp add: divestment_calls_def)

lemma divestment_shares_optional:
  assumes d: "divest_effects p \<noteq> []" and o: "optional p"
    and p: "im_invest_parameters self = p"
    and ok: "InvestmentModel_create_shares self sm = Inr (calls, eqs)"
  shows "divestment_calls calls =
           [add_share_to_invest ''divest_effects'' (im_element self) (divest_effects p)
              (Skalar 1) None,
            add_share_to_invest ''divest_cancellation_effects'' (im_element self)
              (divest_effects p) (Skalar (- 1)) (is_invested self)] \<and>
         (\<forall>inv. is_invested self = Some inv \<longrightarrow>
            net_divestment a effect calls
              = divestment_value p effect * (1 - a (label inv) ! 0) \<and>
            (a (label inv) ! 0 = 0 \<longrightarrow> net_divestment a effect calls = divestment_value p effect) \<and>
            (a (label inv) ! 0 = 1 \<longrightarrow> net_divestment a effect calls = 0))"
proof -
  let ?c1 = "add_share_to_invest ''divest_effects'' (im_element self) (divest_effects p)
               (Skalar 1) None"
  let ?c2 = "add_share_to_invest ''divest_cancellation_effects'' (im_element self)
               (divest_effects p) (Skalar (- 1)) (is_invested self)"
  have calls: "divestment_calls calls = [?c1, ?c2]"
  proof (cases "effects_in_segments p")
    case None
    with ok d o p show ?thesis
      by (auto simp add: InvestmentModel_create_shares_def Let_def divestment_calls_def
          add_share_to_invest_def)
  next
    case (Some segs)
    with ok p obtain size_var segment_calls where
      s: "SegmentedSharesModel_do_modeling (im_element self) (size_var, fst segs) (snd segs)
            (is_invested self) ''SegmentedShares'' sm = Inr (segment_calls, eqs)"
      and c: "calls =
           (if fix_effects p \<noteq> []
            then [add_share_to_invest ''fix_effects'' (im_element self) (fix_effects p)
                    (Skalar 1) (is_invested self)]
            else []) @ [?c1, ?c2] @
           (if specific_effects p \<noteq> []
            then [add_share_to_invest ''specific_effects'' (im_element self)
                    (specific_effects p) (Skalar 1) (size_v self)]
            else []) @ segment_calls"
      using d o
      by (auto simp add: InvestmentModel_create_shares_def Let_def and_then_def
          split: option.splits sum.splits)
    have "divestment_calls segment_calls = []" using s by (rule segmented_calls_names)
    then show ?thesis
      unfolding c
      by (simp add: divestment_calls_def add_share_to_invest_def)
  qed
  have net: "net_divestment a effect calls
               = divestment_value p effect * (1 - a (label inv) ! 0)"
    if "is_invested self = Some inv" for inv
    using that
    by (simp add: net_divestment_def calls share_value_def add_share_to_invest_def
        divestment_value_def algebra_simps split: option.splits)
  from calls net show ?thesis by simp
qed

lemma divestment_shares_not_optional:
  assumes o: "\<not> optional p"
    and p: "im_invest_parameters self = p"
    and ok: "InvestmentModel_create_shares self sm = Inr (calls, eqs)"
  shows "divestment_calls calls = []"
proof (cases "effects_in_segments p")
  case None
  with ok o p show ?thesis
    by (auto simp add: InvestmentModel_create_shares_def Let_def divestment_calls_def
        add_share_to_invest_def)
next
  case (Some segs)
  with ok p obtain size_var segment_calls where
    s: "SegmentedSharesModel_do_modeling (im_element self) (size_var, fst segs) (snd segs)
          (is_invested self) ''SegmentedShares'' sm = Inr (segment_calls, eqs)"
    and c: "calls =
         (if fix_effects p \<noteq> []
          then [add_share_to_invest ''fix_effects'' (im_element self) (fix_effects p)
                  (Skalar 1) None]
          else []) @
         (if specific_effects p \<noteq> []
          then [add_share_to_invest ''specific_effects'' (im_element self)
                  (specific_effects p) (Skalar 1) (size_v self)]
          else []) @ segment_calls"
    using o
    by (auto simp add: InvestmentModel_create_shares_def Let_def and_then_def
        split: option.splits sum.splits)
  have "divestment_calls segment_calls = []" using s by (rule segmented_calls_names)
  then show ?thesis
    unfolding c
    by (simp add: divestment_calls_def add_share_to_invest_def)
qed

text \<open>
  C4, as amended. When the investment is optional and has divestment effects,
  \<open>_create_shares\<close> registers exactly two divestment shares in the investment ledger:
  \<open>divest_effects\<close> with the factor 1 and no variable, and
  \<open>divest_cancellation_effects\<close> with the factor -1 and the \<open>isInvested\<close> binary.
  Together they contribute the divestment value times \<open>1 - isInvested\<close>: the divestment
  value when not invested, 0 when invested. When the investment is not optional,
  \<open>_create_shares\<close> registers no divestment share, whatever the divestment effects.
\<close>

theorem divestment_shares:
  assumes p: "im_invest_parameters self = p"
    and ok: "InvestmentModel_create_shares self sm = Inr (calls, eqs)"
  shows "(optional p \<and> divest_effects p \<noteq> [] \<longrightarrow>
            divestment_calls calls =
              [add_share_to_invest ''divest_effects'' (im_element self) (divest_effects p)
                 (Skalar 1) None,
               add_share_to_invest ''divest_cancellation_effects'' (im_element self)
                 (divest_effects p) (Skalar (- 1)) (is_invested self)] \<and>
            (\<forall>inv. is_invested self = Some inv \<longrightarrow>
               net_divestment a effect calls
                 = divestment_value p effect * (1 - a (label inv) ! 0) \<and>
               (a (label inv) ! 0 = 0 \<longrightarrow>
                  net_divestment a effect calls = divestment_value p effect) \<and>
               (a (label inv) ! 0 = 1 \<longrightarrow> net_divestment a effect calls = 0))) \<and>
         (\<not> optional p \<longrightarrow> divestment_calls calls = [])"
  using divestment_shares_optional [OF _ _ p ok, of a effect]
    divestment_shares_not_optional [OF _ p ok]
  by blast

theorem divestment_shares_witness:
  "(\<exists>calls eqs.
      InvestmentModel_create_shares (divest_model True) divest_system = Inr (calls, eqs) \<and>
      length (divestment_calls calls) = 2 \<and>
      net_divestment (divest_assignment 0) ''costs'' calls = 500 \<and>
      net_divestment (divest_assignment 1) ''costs'' calls = 0) \<and>
   (\<exists>calls eqs.
      InvestmentModel_create_shares (divest_model False) divest_system = Inr (calls, eqs) \<and>
      divest_effects (im_invest_parameters (divest_model False)) \<noteq> [] \<and>
      divestment_calls calls = [])"
proof -
  obtain calls eqs where
    ok: "InvestmentModel_create_shares (divest_model True) divest_system = Inr (calls, eqs)"
    by (simp add: InvestmentModel_create_shares_def divest_model_def divest_parameters_def
        Let_def)
  have h: "optional (divest_parameters True) \<and> divest_effects (divest_parameters True) \<noteq> []"
    and hp: "im_invest_parameters (divest_model True) = divest_parameters True"
    by (simp_all add: divest_model_def divest_parameters_def)
  have i: "is_invested (divest_model True)
             = Some (create_variable ''isInvested'' ''Boiler__Q_th__Investment'' 1
                       None None True None None)"
    by (simp add: divest_model_def)
  have v: "divestment_value (divest_parameters True) ''costs'' = 500"
    by (simp add: divestment_value_def divest_parameters_def)
  from conjunct1 [OF divestment_shares [OF hp ok, of "divest_assignment 0" "''costs''"]]
    conjunct1 [OF divestment_shares [OF hp ok, of "divest_assignment 1" "''costs''"]] h
  have t: "length (divestment_calls calls) = 2"
    "net_divestment (divest_assignment 0) ''costs'' calls = 500"
    "net_divestment (divest_assignment 1) ''costs'' calls = 0"
    by (simp_all add: i v divest_assignment_def create_variable_def)
  obtain calls' eqs' where
    ok': "InvestmentModel_create_shares (divest_model False) divest_system
            = Inr (calls', eqs')"
    by (simp add: InvestmentModel_create_shares_def divest_model_def divest_parameters_def
        Let_def)
  have h': "\<not> optional (divest_parameters False)"
    "divest_effects (im_invest_parameters (divest_model False)) \<noteq> []"
    and hp': "im_invest_parameters (divest_model False) = divest_parameters False"
    by (simp_all add: divest_model_def divest_parameters_def)
  from conjunct2 [OF divestment_shares [OF hp' ok', of "divest_assignment 0" "''costs''"]] h'
  have t': "divestment_calls calls' = []" by simp
  from ok t ok' h'(2) t' show ?thesis by blast
qed

text \<open>
  C4 as stated fails: an investment that is not optional registers no divestment share,
  whatever its divestment effects.
\<close>

theorem divestment_not_optional_counterexample:
  "divest_effects (im_invest_parameters (divest_model False)) \<noteq> [] \<and>
   InvestmentModel_create_shares (divest_model False) divest_system
     = Inr ([add_share_to_invest ''fix_effects'' ''Boiler__Q_th''
               [(''costs'', Skalar 1000)] (Skalar 1) None], [])"
  by (simp add: InvestmentModel_create_shares_def divest_model_def divest_parameters_def
      Let_def)

subsection \<open>One segment\<close>

lemma row_term_of:
  assumes "length_v v = T" "i < T"
  shows "summand_row a (term_of (Skalar c) v) i = c * a (label v) ! i"
  using full_rows_row [OF full_rows_term_of [OF assms(1)] assms(2), of a c]
  by (simp add: term_of_def)

lemma replicate_iff:
  "xs = replicate n c \<longleftrightarrow> length xs = n \<and> (\<forall>i<n. xs ! i = c)"
  by (auto simp add: list_eq_iff_nth_eq)

lemma segment_row:
  fixes b p q yv :: real
  shows "((b = 0 \<or> b = 1) \<and> (0 \<le> p \<and> p \<le> 1) \<and> (0 \<le> q \<and> q \<le> 1) \<and>
          - b + p + q = 0 \<and> - 5 + 0 * p + 10 * q = 0 \<and> - yv + 0 * p + 100 * q = 0 \<and> b = 1)
         \<longleftrightarrow> (b = 1 \<and> p = 1 / 2 \<and> q = 1 / 2 \<and> yv = 50)"
  by auto

lemma single_segment_model:
  assumes self: "self = MultipleSegmentsModel_init el
                   [(x, [(Skalar 0, Skalar 10)]), (y, [(Skalar 0, Skalar 100)])]
                   Not_Outside ts lbl"
    and n: "n = (if ts then nr_of_time_steps sm else 1)"
    and xy: "x \<noteq> y"
    and v: "insg = create_variable ''inSegment'' (el @ ''__Segment_0'') n None None True None None"
      "l0 = create_variable ''lambda0'' (el @ ''__Segment_0'') n (Some (Skalar 0))
              (Some (Skalar 1)) False None None"
      "l1 = create_variable ''lambda1'' (el @ ''__Segment_0'') n (Some (Skalar 0))
              (Some (Skalar 1)) False None None"
  shows "\<exists>m seg. MultipleSegmentsModel_do_modeling self sm
           = Inr (m,
               [\<lparr>eq_label = el @ ''__Segment_0_inSegment'', eq_kind = Eq,
                  summands = [term_of (Skalar (- 1)) insg, term_of (Skalar 1) l0,
                              term_of (Skalar 1) l1],
                  constant_e = Skalar 0\<rparr>,
                \<lparr>eq_label = el @ ''__'' @ lbl @ ''_lambda_'' @ label x, eq_kind = Eq,
                  summands = [term_of (Skalar (- 1)) x, term_of (Skalar 0) l0,
                              term_of (Skalar 10) l1],
                  constant_e = Skalar 0\<rparr>,
                \<lparr>eq_label = el @ ''__'' @ lbl @ ''_lambda_'' @ label y, eq_kind = Eq,
                  summands = [term_of (Skalar (- 1)) y, term_of (Skalar 0) l0,
                              term_of (Skalar 100) l1],
                  constant_e = Skalar 0\<rparr>,
                \<lparr>eq_label = el @ ''__'' @ lbl @ ''_in_single_Segment'', eq_kind = Eq,
                  summands = [term_of (Skalar 1) insg],
                  constant_e = Skalar 1\<rparr>]) \<and>
         segment_models m = [seg] \<and> in_segment seg = Some insg \<and>
         lambda0 seg = Some l0 \<and> lambda1 seg = Some l1"
  using xy
  by (simp add: self n v MultipleSegmentsModel_do_modeling_def MultipleSegmentsModel_init_def
      nr_of_segments_def restructure_def item_def and_then_def Let_def
      SegmentModel_init_def SegmentModel_do_modeling_def str_def digit_def
      add_segment_terms_def add_summand_term_of create_equation_def add_constant_def)

lemma variable_ok_binary:
  "variable_ok a (create_variable l ow n None None True None None) \<longleftrightarrow>
     length (a (ow @ ''__'' @ l)) = n \<and>
     (\<forall>i<n. a (ow @ ''__'' @ l) ! i = 0 \<or> a (ow @ ''__'' @ l) ! i = 1)"
  by (auto simp add: variable_ok_def value_in_domain_def create_variable_def list_all_iff)

lemma variable_ok_bounded:
  "variable_ok a (create_variable l ow n (Some (Skalar lo)) (Some (Skalar hi)) False None None)
   \<longleftrightarrow>
     length (a (ow @ ''__'' @ l)) = n \<and>
     (\<forall>i<n. lo \<le> a (ow @ ''__'' @ l) ! i \<and> a (ow @ ''__'' @ l) ! i \<le> hi)"
  by (auto simp add: variable_ok_def value_in_domain_def create_variable_def list_all_iff)

lemma three_terms_holds:
  assumes "length_v u = n" "length_v v = n" "length_v w = n" "0 < n"
  shows "equation_holds a \<lparr>eq_label = l, eq_kind = Eq,
            summands = [term_of (Skalar c1) u, term_of (Skalar c2) v, term_of (Skalar c3) w],
            constant_e = Skalar 0\<rparr>
         \<longleftrightarrow> (\<forall>i<n. c1 * a (label u) ! i + c2 * a (label v) ! i + c3 * a (label w) ! i = 0)"
proof -
  let ?e = "\<lparr>eq_label = l, eq_kind = Eq,
            summands = [term_of (Skalar c1) u, term_of (Skalar c2) v, term_of (Skalar c3) w],
            constant_e = Skalar 0\<rparr>"
  have h: "equation_holds a ?e \<longleftrightarrow> (\<forall>i<n. equation_row_holds a ?e i)"
    by (rule full_rows_holds) (use assms in \<open>simp_all add: full_rows_term_of\<close>)
  show ?thesis
    unfolding h using assms
    by (simp add: equation_row_holds_def row_term_of [where T = n] add.assoc)
qed

lemma one_term_holds:
  assumes "length_v u = n" "0 < n"
  shows "equation_holds a \<lparr>eq_label = l, eq_kind = Eq,
            summands = [term_of (Skalar c1) u], constant_e = Skalar c\<rparr>
         \<longleftrightarrow> (\<forall>i<n. c1 * a (label u) ! i = c)"
proof -
  let ?e = "\<lparr>eq_label = l, eq_kind = Eq,
            summands = [term_of (Skalar c1) u], constant_e = Skalar c\<rparr>"
  have h: "equation_holds a ?e \<longleftrightarrow> (\<forall>i<n. equation_row_holds a ?e i)"
    by (rule full_rows_holds) (use assms in \<open>simp_all add: full_rows_term_of\<close>)
  show ?thesis
    unfolding h using assms
    by (simp add: equation_row_holds_def row_term_of [where T = n])
qed

text \<open>
  C5. One segment from \<open>(0, 0)\<close> to \<open>(10, 100)\<close> for an input \<open>x\<close> and an output
  \<open>y\<close>, outside values not allowed, scalar or with one entry per time step, and the
  input at 5 in every entry: \<open>MultipleSegmentsModel.do_modeling\<close> returns one segment
  model and its equations, and an assignment satisfies the domains of \<open>in_segment\<close>,
  \<open>lambda0\<close>, \<open>lambda1\<close> and the equations (with one value of \<open>y\<close> per entry) exactly
  when \<open>in_segment\<close> is 1, both weights are 1/2 (so their sum is 1) and \<open>y\<close> is 50,
  in every entry.
\<close>

theorem single_segment:
  assumes self: "self = MultipleSegmentsModel_init el
                   [(x, [(Skalar 0, Skalar 10)]), (y, [(Skalar 0, Skalar 100)])]
                   Not_Outside ts lbl"
    and n: "n = (if ts then nr_of_time_steps sm else 1)" "0 < n"
    and xy: "x \<noteq> y" "length_v x = n" "length_v y = n"
    and a: "a (label x) = replicate n 5"
  shows "\<exists>m seg insg l0 l1 eqs.
           MultipleSegmentsModel_do_modeling self sm = Inr (m, eqs) \<and>
           segment_models m = [seg] \<and> in_segment seg = Some insg \<and>
           lambda0 seg = Some l0 \<and> lambda1 seg = Some l1 \<and>
           label insg = el @ ''__Segment_0__inSegment'' \<and>
           label l0 = el @ ''__Segment_0__lambda0'' \<and>
           label l1 = el @ ''__Segment_0__lambda1'' \<and>
           ((feasible a [insg, l0, l1] eqs \<and> length (a (label y)) = n) \<longleftrightarrow>
              (a (label insg) = replicate n 1 \<and> a (label l0) = replicate n (1 / 2) \<and>
               a (label l1) = replicate n (1 / 2) \<and> a (label y) = replicate n 50))"
proof -
  define insg where
    "insg = create_variable ''inSegment'' (el @ ''__Segment_0'') n None None True None None"
  define l0 where
    "l0 = create_variable ''lambda0'' (el @ ''__Segment_0'') n (Some (Skalar 0))
            (Some (Skalar 1)) False None None"
  define l1 where
    "l1 = create_variable ''lambda1'' (el @ ''__Segment_0'') n (Some (Skalar 0))
            (Some (Skalar 1)) False None None"
  have len: "length_v insg = n" "length_v l0 = n" "length_v l1 = n"
    by (simp_all add: insg_def l0_def l1_def create_variable_def)
  from single_segment_model [OF self n(1) xy(1) insg_def l0_def l1_def]
  obtain m seg where
    r: "MultipleSegmentsModel_do_modeling self sm
           = Inr (m,
               [\<lparr>eq_label = el @ ''__Segment_0_inSegment'', eq_kind = Eq,
                  summands = [term_of (Skalar (- 1)) insg, term_of (Skalar 1) l0,
                              term_of (Skalar 1) l1],
                  constant_e = Skalar 0\<rparr>,
                \<lparr>eq_label = el @ ''__'' @ lbl @ ''_lambda_'' @ label x, eq_kind = Eq,
                  summands = [term_of (Skalar (- 1)) x, term_of (Skalar 0) l0,
                              term_of (Skalar 10) l1],
                  constant_e = Skalar 0\<rparr>,
                \<lparr>eq_label = el @ ''__'' @ lbl @ ''_lambda_'' @ label y, eq_kind = Eq,
                  summands = [term_of (Skalar (- 1)) y, term_of (Skalar 0) l0,
                              term_of (Skalar 100) l1],
                  constant_e = Skalar 0\<rparr>,
                \<lparr>eq_label = el @ ''__'' @ lbl @ ''_in_single_Segment'', eq_kind = Eq,
                  summands = [term_of (Skalar 1) insg],
                  constant_e = Skalar 1\<rparr>])"
      (is "_ = Inr (m, ?eqs)")
    and s: "segment_models m = [seg]" "in_segment seg = Some insg"
      "lambda0 seg = Some l0" "lambda1 seg = Some l1"
    by blast
  let ?b = "a (label insg)" and ?p = "a (label l0)" and ?q = "a (label l1)"
    and ?y = "a (label y)"
  have lab: "label insg = el @ ''__Segment_0__inSegment''"
    "label l0 = el @ ''__Segment_0__lambda0''" "label l1 = el @ ''__Segment_0__lambda1''"
    by (simp_all add: insg_def l0_def l1_def create_variable_def)
  have dom: "list_all (variable_ok a) [insg, l0, l1] \<longleftrightarrow>
      length ?b = n \<and> length ?p = n \<and> length ?q = n \<and>
      (\<forall>i<n. (?b ! i = 0 \<or> ?b ! i = 1) \<and> (0 \<le> ?p ! i \<and> ?p ! i \<le> 1) \<and>
              (0 \<le> ?q ! i \<and> ?q ! i \<le> 1))"
proof -
    have l: "label insg = el @ ''__Segment_0'' @ ''__'' @ ''inSegment''"
      "label l0 = el @ ''__Segment_0'' @ ''__'' @ ''lambda0''"
      "label l1 = el @ ''__Segment_0'' @ ''__'' @ ''lambda1''"
      by (simp_all add: insg_def l0_def l1_def create_variable_def)
    show ?thesis
      unfolding l
      unfolding insg_def l0_def l1_def
      using variable_ok_binary [of a "''inSegment''" "el @ ''__Segment_0''" n]
        variable_ok_bounded [of a "''lambda0''" "el @ ''__Segment_0''" n 0 1]
        variable_ok_bounded [of a "''lambda1''" "el @ ''__Segment_0''" n 0 1]
      by auto
  qed
  have eqs: "list_all (equation_holds a) ?eqs \<longleftrightarrow>
      (\<forall>i<n. - ?b ! i + ?p ! i + ?q ! i = 0 \<and>
              - 5 + 0 * ?p ! i + 10 * ?q ! i = 0 \<and>
              - ?y ! i + 0 * ?p ! i + 100 * ?q ! i = 0 \<and> ?b ! i = 1)"
    using three_terms_holds [OF len(1) len(2) len(3) n(2), of a _ "- 1" 1 1]
      three_terms_holds [OF xy(2) len(2) len(3) n(2), of a _ "- 1" 0 10]
      three_terms_holds [OF xy(3) len(2) len(3) n(2), of a _ "- 1" 0 100]
      one_term_holds [OF len(1) n(2), of a _ 1 1]
    by (auto simp add: a)
  have "(feasible a [insg, l0, l1] ?eqs \<and> length ?y = n) \<longleftrightarrow>
        (length ?b = n \<and> length ?p = n \<and> length ?q = n \<and> length ?y = n \<and>
         (\<forall>i<n. (?b ! i = 0 \<or> ?b ! i = 1) \<and> (0 \<le> ?p ! i \<and> ?p ! i \<le> 1) \<and>
                 (0 \<le> ?q ! i \<and> ?q ! i \<le> 1) \<and>
                 - ?b ! i + ?p ! i + ?q ! i = 0 \<and>
                 - 5 + 0 * ?p ! i + 10 * ?q ! i = 0 \<and>
                 - ?y ! i + 0 * ?p ! i + 100 * ?q ! i = 0 \<and> ?b ! i = 1))"
    unfolding feasible_def dom eqs by blast
  also have "\<dots> \<longleftrightarrow>
        (length ?b = n \<and> length ?p = n \<and> length ?q = n \<and> length ?y = n \<and>
         (\<forall>i<n. ?b ! i = 1 \<and> ?p ! i = 1 / 2 \<and> ?q ! i = 1 / 2 \<and> ?y ! i = 50))"
    unfolding segment_row ..
  also have "\<dots> \<longleftrightarrow>
        (?b = replicate n 1 \<and> ?p = replicate n (1 / 2) \<and> ?q = replicate n (1 / 2) \<and>
         ?y = replicate n 50)"
    unfolding replicate_iff by blast
  finally show ?thesis
    using r s lab by blast
qed

theorem single_segment_witness:
  "\<exists>m seg insg l0 l1 eqs.
     MultipleSegmentsModel_do_modeling
       (MultipleSegmentsModel_init ''Boiler''
          [(segment_input, [(Skalar 0, Skalar 10)]), (segment_output, [(Skalar 0, Skalar 100)])]
          Not_Outside False ''MultipleSegments'') segment_system = Inr (m, eqs) \<and>
     segment_models m = [seg] \<and> in_segment seg = Some insg \<and>
     lambda0 seg = Some l0 \<and> lambda1 seg = Some l1 \<and>
     feasible segment_assignment [insg, l0, l1] eqs"
proof -
  have h: "segment_input \<noteq> segment_output" "length_v segment_input = 1"
    "length_v segment_output = 1" "segment_assignment (label segment_input) = replicate 1 5"
    by (simp_all add: segment_input_def segment_output_def create_variable_def
        segment_assignment_def)
  have n1: "(1::nat) = (if False then nr_of_time_steps segment_system else 1)" by simp
  have n2: "0 < (1::nat)" by simp
  note t = single_segment [where el = "''Boiler''" and lbl = "''MultipleSegments''"
      and x = segment_input and y = segment_output and ts = False and n = 1
      and sm = segment_system and a = segment_assignment
      and self = "MultipleSegmentsModel_init ''Boiler''
          [(segment_input, [(Skalar 0, Skalar 10)]), (segment_output, [(Skalar 0, Skalar 100)])]
          Not_Outside False ''MultipleSegments''"]
  from t [OF refl n1 n2 h]
  obtain m seg insg l0 l1 eqs where
    r: "MultipleSegmentsModel_do_modeling
       (MultipleSegmentsModel_init ''Boiler''
          [(segment_input, [(Skalar 0, Skalar 10)]), (segment_output, [(Skalar 0, Skalar 100)])]
          Not_Outside False ''MultipleSegments'') segment_system = Inr (m, eqs)"
      "segment_models m = [seg]" "in_segment seg = Some insg"
      "lambda0 seg = Some l0" "lambda1 seg = Some l1"
    and l: "label insg = ''Boiler'' @ ''__Segment_0__inSegment''"
      "label l0 = ''Boiler'' @ ''__Segment_0__lambda0''"
      "label l1 = ''Boiler'' @ ''__Segment_0__lambda1''"
    and f: "(feasible segment_assignment [insg, l0, l1] eqs \<and>
             length (segment_assignment (label segment_output)) = 1) \<longleftrightarrow>
            (segment_assignment (label insg) = replicate 1 1 \<and>
             segment_assignment (label l0) = replicate 1 (1 / 2) \<and>
             segment_assignment (label l1) = replicate 1 (1 / 2) \<and>
             segment_assignment (label segment_output) = replicate 1 50)"
    by blast
  have "feasible segment_assignment [insg, l0, l1] eqs"
    using f by (simp add: l segment_assignment_def segment_output_def create_variable_def)
  with r show ?thesis by blast
qed

end
